theory Spec2Isabelle
  imports Complex_Main "HOL-Library.Sublist" "HOL-Library.AList" "HOL-Library.Log_Nat"
begin

section \<open>JavaScript strings\<close>

text \<open>
  A JavaScript string is a sequence of UTF-16 code units. It is modelled as a
  \<^typ>\<open>string\<close> whose characters are the code units below 256, \<open>CHR n\<close> being the
  code unit \<open>n\<close> (Basic Latin and Latin-1 Supplement); \<open>length\<close> is then the
  \<open>length\<close> property. On these code units the string operations the pipeline calls are
  written out in full:
  \<^item> \<open>String.prototype.includes\<close>;
  \<^item> the regular-expression class \<open>\s\<close>, which is also what \<open>trim\<close> removes: of the
    code units below 256 these are tab, line feed, vertical tab, form feed, carriage return
    (9 to 13), space (32) and the no-break space (160);
  \<^item> \<open>toLowerCase\<close>: of the code units below 256 the upper-case letters are \<open>A-Z\<close>
    (65 to 90) and the Latin-1 capitals 192 to 222 without the multiplication sign 215, and
    each has its lower-case letter 32 above it.
\<close>

fun js_includes :: "string \<Rightarrow> string \<Rightarrow> bool" where
  "js_includes [] sub = (sub = [])"
| "js_includes (c # cs) sub = (prefix sub (c # cs) \<or> js_includes cs sub)"

definition isSpace :: "char \<Rightarrow> bool" where
  "isSpace c = (c = CHR '' '' \<or> c = CHR 0x09 \<or> c = CHR 0x0A \<or> c = CHR 0x0B
     \<or> c = CHR 0x0C \<or> c = CHR 0x0D \<or> c = CHR 0xA0)"

definition toLowerChar :: "char \<Rightarrow> char" where
  "toLowerChar c =
     (let n = (of_char c :: nat) in
      if (65 \<le> n \<and> n \<le> 90) \<or> (192 \<le> n \<and> n \<le> 222 \<and> n \<noteq> 215) then char_of (n + 32)
      else c)"

definition toLowerCase :: "string \<Rightarrow> string" where
  "toLowerCase s = map toLowerChar s"

definition trim :: "string \<Rightarrow> string" where
  "trim s = rev (dropWhile isSpace (rev (dropWhile isSpace s)))"

section \<open>AnalysisRequestBuilder: \<open>buildAnalysisPrompt\<close> (src/utils/aiAnalyzer.js)\<close>

text \<open>
  The prompt is a template literal in three pieces. \<open>promptHeader\<close> is the text up to and
  including the resume, \<open>jobDescriptionBlock\<close> is the piece appended under
  \<open>if (jobDescription)\<close>, \<open>promptFormat\<close> is the piece appended last.
\<close>

definition promptHeader :: "string \<Rightarrow> string" where
  \<open>promptHeader resumeText =
    ''You are an expert resume analyst and career coach. Analyze resumes and provide detailed, actionable feedback.\<newline>'' @
    ''\<newline>'' @
    ''Analyze the following resume and provide a detailed assessment in JSON format. Current year is 2026 , avoid commenting on any dates\<newline>'' @
    ''\<newline>'' @
    ''**RESUME TEXT:**\<newline>'' @
    resumeText @ ''\<newline>'' @
    ''\<newline>''\<close>

definition jobDescriptionBlock :: "string \<Rightarrow> string" where
  \<open>jobDescriptionBlock jobDescription =
    ''**JOB DESCRIPTION:**\<newline>'' @
    jobDescription @ ''\<newline>'' @
    ''\<newline>'' @
    ''Compare the resume against this job description.\<newline>''\<close>

definition promptFormat :: string where
  \<open>promptFormat =
    ''**REQUIRED JSON OUTPUT FORMAT:**\<newline>'' @
    ''{\<newline>'' @
    ''  "matchScore": <number 0-100>,\<newline>'' @
    ''  "missingKeywords": {\<newline>'' @
    ''    "hardSkills": [<array of technical skills/tools missing>],\<newline>'' @
    ''    "softSkills": [<array of soft skills missing>],\<newline>'' @
    ''    "certifications": [<array of certifications that would help>]\<newline>'' @
    ''  },\<newline>'' @
    ''  "foundKeywords": {\<newline>'' @
    ''    "hardSkills": [<array of technical skills/tools found>],\<newline>'' @
    ''    "softSkills": [<array of soft skills found>],\<newline>'' @
    ''    "certifications": [<array of certifications found>]\<newline>'' @
    ''  },\<newline>'' @
    ''  "actionableTips": [\<newline>'' @
    ''    {\<newline>'' @
    ''      "category": "<formatting|content|keywords|impact|structure>",\<newline>'' @
    ''      "suggestion": "<specific actionable tip>",\<newline>'' @
    ''      "priority": "<high|medium|low>"\<newline>'' @
    ''    }\<newline>'' @
    ''  ],\<newline>'' @
    ''  "summary": "<2-3 sentence overall assessment>"\<newline>'' @
    ''}\<newline>'' @
    ''\<newline>'' @
    ''**ANALYSIS CRITERIA:**\<newline>'' @
    ''1. **Match Score**: If job description provided, score compatibility (0-100). Otherwise, score overall resume quality.\<newline>'' @
    ''2. **Keywords**: Identify technical skills, soft skills, and certifications.\<newline>'' @
    ''3. **Tips**: Focus on:\<newline>'' @
    ''   - Formatting improvements (bullet points, consistency)\<newline>'' @
    ''   - Content enhancements (quantify achievements, action verbs)\<newline>'' @
    ''   - Keyword optimization (ATS compatibility)\<newline>'' @
    ''   - Impact statements (results-oriented language)\<newline>'' @
    ''   - Structure (clear sections, logical flow)\<newline>'' @
    ''4. **Summary**: Provide constructive, encouraging feedback.\<newline>'' @
    ''\<newline>'' @
    ''Return ONLY valid JSON matching the exact format above.''\<close>

text \<open>
  \<open>if (jobDescription)\<close> tests truthiness: of a string, that it is not empty.
\<close>

definition buildAnalysisPrompt :: "string \<Rightarrow> string \<Rightarrow> string" where
  "buildAnalysisPrompt resumeText jobDescription =
     (let prompt = promptHeader resumeText;
          prompt = (if jobDescription \<noteq> [] then prompt @ jobDescriptionBlock jobDescription
                    else prompt)
      in prompt @ promptFormat)"

text \<open>
  \<open>analyzeResume = async (resumeText, jobDescription = '')\<close>: the default parameter
  value replaces an omitted (\<open>undefined\<close>) argument, here \<open>None\<close>.
\<close>

definition defaultJobDescription :: "string option \<Rightarrow> string" where
  "defaultJobDescription jobDescription =
     (case jobDescription of None \<Rightarrow> [] | Some jd \<Rightarrow> jd)"

definition analysisPrompt :: "string \<Rightarrow> string option \<Rightarrow> string" where
  "analysisPrompt resumeText jobDescription =
     buildAnalysisPrompt resumeText (defaultJobDescription jobDescription)"

section \<open>JavaScript numbers\<close>

text \<open>
  A JavaScript number is an IEEE 754 binary64 value. Its finite values are rationals, and
  an arithmetic operation returns the exact result rounded to the nearest value with a
  53-bit significand, a tie going to the even significand. \<open>log2floor q\<close> is the
  exponent \<open>e\<close> with \<open>2^e \<le> q < 2^(e+1)\<close>, so \<open>2^(e-52)\<close> is the spacing of the
  binary64 values around \<open>q\<close>. The exponent range is not modelled: the scoring below
  divides two array lengths (below \<open>2^32\<close>) and multiplies by 100, which stays far inside
  the normal range.
\<close>

definition log2floor :: "rat \<Rightarrow> int" where
  "log2floor q =
     (let (a, b) = quotient_of q; e = bitlen a - bitlen b
      in if 2 powi e \<le> q then e else e - 1)"

definition roundTiesToEven :: "rat \<Rightarrow> int" where
  "roundTiesToEven r =
     (let f = \<lfloor>r\<rfloor>; d = r - of_int f
      in if d < 1 / 2 then f else if 1 / 2 < d then f + 1 else if even f then f else f + 1)"

definition double :: "rat \<Rightarrow> rat" where
  "double q =
     (if q = 0 then 0
      else let u = 2 powi (log2floor \<bar>q\<bar> - 52) in of_int (roundTiesToEven (q / u)) * u)"

definition js_div :: "rat \<Rightarrow> rat \<Rightarrow> rat" where
  "js_div a b = double (a / b)"

definition js_mul :: "rat \<Rightarrow> rat \<Rightarrow> rat" where
  "js_mul a b = double (a * b)"

text \<open>
  \<open>Math.round\<close> returns the nearest integer, the one towards plus infinity when two are
  equally near. \<open>exactRound\<close> is the same rounding, named apart for the arithmetic of the
  specification, which has no binary64 step in it.
\<close>

definition Math_round :: "rat \<Rightarrow> int" where
  "Math_round x = \<lfloor>x + 1 / 2\<rfloor>"

definition exactRound :: "rat \<Rightarrow> int" where
  "exactRound x = \<lfloor>x + 1 / 2\<rfloor>"

section \<open>JobMatcher (src/services/jobService.js)\<close>

record job =
  jobId :: string
  title :: string
  company :: string
  location :: string
  description :: string
  url :: string
  salary :: string
  postedDate :: string
  category :: string
  source :: string

record scoredJob = job +
  matchScore :: int
  matchedSkills :: "string list"
  missingSkills :: "string list"

record userSkills =
  hardSkills :: "string list"
  softSkills :: "string list"
  certifications :: "string list"
  allSkills :: "string list"

text \<open>
  \<open>extractSkills\<close> reads \<open>resume.analysis.foundKeywords\<close>, whose buckets the schema types
  as arrays of strings; \<open>None\<close> is a record without analysis or without found keywords
  (\<open>analysis.foundKeywords?.hardSkills || []\<close>).
\<close>

definition extractSkills :: "(string list \<times> string list \<times> string list) option \<Rightarrow> userSkills" where
  "extractSkills foundKeywords =
     (case foundKeywords of
        None \<Rightarrow> \<lparr>hardSkills = [], softSkills = [], certifications = [], allSkills = []\<rparr>
      | Some (hard, soft, certs) \<Rightarrow>
          \<lparr>hardSkills = hard, softSkills = soft, certifications = certs,
           allSkills = hard @ soft\<rparr>)"

definition jobText :: "'a job_scheme \<Rightarrow> string" where
  "jobText j = toLowerCase (title j @ '' '' @ description j)"

definition calculateMatchScore :: "'a job_scheme \<Rightarrow> userSkills \<Rightarrow> int" where
  "calculateMatchScore j skills =
     (let totalSkills = length (allSkills skills) in
      if totalSkills = 0 then 50
      else
        let matchedCount =
              fold (\<lambda>skill n. if js_includes (jobText j) (toLowerCase skill) then n + 1 else n)
                (allSkills skills) (0 :: nat);
            score = Math_round (js_mul (js_div (of_nat matchedCount) (of_nat totalSkills)) 100)
        in min 100 (max 0 score))"

definition findMatchedSkills :: "'a job_scheme \<Rightarrow> userSkills \<Rightarrow> string list" where
  "findMatchedSkills j skills =
     fold (\<lambda>skill matched.
             if js_includes (jobText j) (toLowerCase skill) then matched @ [skill] else matched)
       (allSkills skills) []"

definition scoreJob :: "userSkills \<Rightarrow> job \<Rightarrow> scoredJob" where
  "scoreJob skills j =
     (let score = calculateMatchScore j skills;
          matched = findMatchedSkills j skills
      in job.extend j
           (scoredJob.fields score matched
              (filter (\<lambda>skill. skill \<notin> set matched) (hardSkills skills))))"

text \<open>
  \<open>Array.prototype.sort\<close> with a comparison function: ECMAScript (2019 and later) requires
  the sort to be stable, and with a consistent comparator the result is ordered by it. It
  is modelled by the stable insertion sort: an element goes before the first later element
  that the comparator does not put ahead of it.
\<close>

fun insertBy :: "('a \<Rightarrow> 'a \<Rightarrow> int) \<Rightarrow> 'a \<Rightarrow> 'a list \<Rightarrow> 'a list" where
  "insertBy cmp x [] = [x]"
| "insertBy cmp x (y # ys) = (if cmp x y \<le> 0 then x # y # ys else y # insertBy cmp x ys)"

definition js_sort :: "('a \<Rightarrow> 'a \<Rightarrow> int) \<Rightarrow> 'a list \<Rightarrow> 'a list" where
  "js_sort cmp xs = foldr (insertBy cmp) xs []"

definition byScoreDescending :: "scoredJob \<Rightarrow> scoredJob \<Rightarrow> int" where
  "byScoreDescending a b = matchScore b - matchScore a"

definition rankJobs :: "scoredJob list \<Rightarrow> scoredJob list" where
  "rankJobs matchedJobs = js_sort byScoreDescending matchedJobs"

text \<open>
  \<open>matchJobsWithResume\<close>, from the listings that \<open>fetchJobsFromAPI\<close> returned (the
  external search, or the mock catalogue) to the ranked result.
\<close>

definition matchJobsWithResume :: "userSkills \<Rightarrow> job list \<Rightarrow> scoredJob list" where
  "matchJobsWithResume skills jobs = rankJobs (map (scoreJob skills) jobs)"

text \<open>Concrete inputs used below.\<close>

definition letterSkills :: "string \<Rightarrow> string list" where
  "letterSkills s = map (\<lambda>c. [c]) s"

definition fortySkills :: userSkills where
  "fortySkills =
     \<lparr>hardSkills = letterSkills ''abcdefghijklmnopqrstuvw'',
      softSkills = letterSkills ''0123456789xyz_-+='',
      certifications = [],
      allSkills = letterSkills ''abcdefghijklmnopqrstuvw'' @ letterSkills ''0123456789xyz_-+=''\<rparr>"

definition alphabetJob :: job where
  "alphabetJob =
     \<lparr>jobId = ''j1'', title = ''ABC'', company = ''C'', location = ''L'',
      description = ''defghijklmnopqrstuvw'', url = ''u'', salary = ''s'', postedDate = ''d'',
      category = ''c'', source = ''Mock''\<rparr>"

definition listing :: "string \<Rightarrow> int \<Rightarrow> scoredJob" where
  "listing i s =
     \<lparr>jobId = i, title = ''t'', company = ''c'', location = ''l'', description = ''d'',
      url = ''u'', salary = ''s'', postedDate = ''p'', category = ''g'', source = ''Mock'',
      matchScore = s, matchedSkills = [], missingSkills = []\<rparr>"

section \<open>JavaScript values read from a JSON document\<close>

text \<open>
  What \<open>JSON.parse\<close> returns. An object is the list of its own properties. Numbers are
  the finite binary64 values, as rationals. The value \<open>undefined\<close>, which no JSON document
  holds and which reading a missing property gives, is \<open>None\<close> of \<open>json option\<close>.
\<close>

datatype json =
    JNull
  | JBool bool
  | JNum rat
  | JStr string
  | JArr "json list"
  | JObj "(string \<times> json) list"

datatype jsError = Error string | TypeError string

fun message :: "jsError \<Rightarrow> string" where
  "message (Error m) = m"
| "message (TypeError m) = m"

text \<open>
  \<open>member v k\<close> is \<open>v.k\<close> on a value that is not \<open>null\<close>, for the property names
  the analyzer reads (\<open>matchScore\<close>, \<open>missingKeywords\<close>, \<open>foundKeywords\<close>, \<open>hardSkills\<close>,
  \<open>softSkills\<close>, \<open>certifications\<close>, \<open>actionableTips\<close>, \<open>summary\<close>, \<open>category\<close>): none of
  them is a property of a string, number, boolean or array, so only an object can hold
  one. \<open>getProp\<close> is \<open>v.k\<close> on any value: reading a property of \<open>null\<close> throws a
  \<open>TypeError\<close>. \<open>optChain\<close> is \<open>v?.k\<close>.
\<close>

definition member :: "json \<Rightarrow> string \<Rightarrow> json option" where
  "member v k = (case v of JObj props \<Rightarrow> map_of props k | _ \<Rightarrow> None)"

definition getProp :: "json \<Rightarrow> string \<Rightarrow> jsError + json option" where
  "getProp v k =
     (if v = JNull
      then Inl (TypeError (''Cannot read properties of null (reading '' @ [CHR 0x27] @ k @ [CHR 0x27] @ '')''))
      else Inr (member v k))"

definition optChain :: "json option \<Rightarrow> string \<Rightarrow> json option" where
  "optChain v k = (case v of None \<Rightarrow> None | Some JNull \<Rightarrow> None | Some w \<Rightarrow> member w k)"

text \<open>
  Truthiness: \<open>undefined\<close>, \<open>null\<close>, \<open>false\<close>, \<open>0\<close> and the empty string are falsy,
  every other value is truthy. \<open>orElse v d\<close> is \<open>v || d\<close>.
\<close>

fun truthy :: "json option \<Rightarrow> bool" where
  "truthy None = False"
| "truthy (Some JNull) = False"
| "truthy (Some (JBool b)) = b"
| "truthy (Some (JNum n)) = (n \<noteq> 0)"
| "truthy (Some (JStr s)) = (s \<noteq> [])"
| "truthy (Some (JArr xs)) = True"
| "truthy (Some (JObj props)) = True"

definition orElse :: "json option \<Rightarrow> json \<Rightarrow> json" where
  "orElse v d = (case v of Some w \<Rightarrow> if truthy v then w else d | None \<Rightarrow> d)"

text \<open>
  \<open>validCategories.includes(x)\<close>: \<open>x\<close> is one of the strings of the array.
\<close>

definition arrayIncludes :: "string list \<Rightarrow> json option \<Rightarrow> bool" where
  "arrayIncludes xs v = (case v of Some (JStr s) \<Rightarrow> s \<in> set xs | _ \<Rightarrow> False)"

text \<open>
  The spread \<open>{...tip}\<close> copies the own enumerable properties of \<open>tip\<close>: of an
  object its properties, of a string or an array the elements under their indices, of
  anything else nothing.
\<close>

fun decimal :: "nat \<Rightarrow> string" where
  "decimal n =
     (if n < 10 then [''0123456789'' ! n]
      else decimal (n div 10) @ [''0123456789'' ! (n mod 10)])"

definition indexed :: "json list \<Rightarrow> (string \<times> json) list" where
  "indexed xs = zip (map decimal [0 ..< length xs]) xs"

definition spread :: "json \<Rightarrow> (string \<times> json) list" where
  "spread v =
     (case v of
        JObj props \<Rightarrow> props
      | JArr xs \<Rightarrow> indexed xs
      | JStr s \<Rightarrow> indexed (map (\<lambda>c. JStr [c]) s)
      | _ \<Rightarrow> [])"

section \<open>AnalysisClient: \<open>analyzeResume\<close> (src/utils/aiAnalyzer.js)\<close>

subsection \<open>Normalization of the parsed reply (the returned object literal)\<close>

definition validCategories :: "string list" where
  "validCategories = [''formatting'', ''content'', ''keywords'', ''impact'', ''structure'']"

definition normalizeTip :: "json \<Rightarrow> jsError + json" where
  "normalizeTip tip =
     (case getProp tip ''category'' of
        Inl e \<Rightarrow> Inl e
      | Inr c \<Rightarrow>
          Inr (JObj (AList.update ''category''
                 (if arrayIncludes validCategories c then the c else JStr ''content'')
                 (spread tip))))"

fun mapTips :: "json list \<Rightarrow> jsError + json list" where
  "mapTips [] = Inr []"
| "mapTips (tip # tips) =
     (case normalizeTip tip of
        Inl e \<Rightarrow> Inl e
      | Inr t \<Rightarrow> (case mapTips tips of Inl e \<Rightarrow> Inl e | Inr ts \<Rightarrow> Inr (t # ts)))"

text \<open>
  \<open>(aiResponse.actionableTips || []).map(...)\<close>: only an array has \<open>map\<close>; on any other
  truthy value the call throws a \<open>TypeError\<close>.
\<close>

definition normalizeTips :: "json \<Rightarrow> jsError + json list" where
  "normalizeTips v =
     (case v of
        JArr tips \<Rightarrow> mapTips tips
      | _ \<Rightarrow> Inl (TypeError ''(aiResponse.actionableTips || []).map is not a function''))"

definition keywordBuckets :: "json option \<Rightarrow> json" where
  "keywordBuckets kw =
     JObj [(''hardSkills'', orElse (optChain kw ''hardSkills'') (JArr [])),
           (''softSkills'', orElse (optChain kw ''softSkills'') (JArr [])),
           (''certifications'', orElse (optChain kw ''certifications'') (JArr []))]"

definition normalizeResponse :: "json \<Rightarrow> jsError + json" where
  "normalizeResponse aiResponse =
     (case getProp aiResponse ''matchScore'' of
        Inl e \<Rightarrow> Inl e
      | Inr score \<Rightarrow>
          (case normalizeTips (orElse (member aiResponse ''actionableTips'') (JArr [])) of
             Inl e \<Rightarrow> Inl e
           | Inr tips \<Rightarrow>
               Inr (JObj
                 [(''matchScore'', orElse score (JNum 0)),
                  (''missingKeywords'', keywordBuckets (member aiResponse ''missingKeywords'')),
                  (''foundKeywords'', keywordBuckets (member aiResponse ''foundKeywords'')),
                  (''actionableTips'', JArr tips),
                  (''aiSummary'', orElse (member aiResponse ''summary'') (JStr []))])))"

subsection \<open>Model selection and the backend\<close>

text \<open>
  The two backend configurations: \<open>gemini-2.0-flash\<close> with a JSON response type, and
  \<open>gemma-3-27b-it\<close>. One backend invocation is \<open>model.generateContent(prompt)\<close> followed
  by \<open>response.text()\<close>: it returns the reply text or throws. The backend is a collaborator
  with a state of its own (its quota window), so an invocation takes and returns that state.
  \<open>analyzeResume\<close> keeps no state between calls: \<open>model\<close> and \<open>useGemma\<close> are local.
  Console output is left out.
\<close>

datatype tier = Primary | Fallback

type_synonym 's backend = "tier \<Rightarrow> string \<Rightarrow> 's \<Rightarrow> (jsError + string) \<times> 's"

definition testPrompt :: string where
  \<open>testPrompt = ''respond with: {"test":true}''\<close>

definition quotaSignal :: "jsError \<Rightarrow> bool" where
  "quotaSignal quotaError =
     (js_includes (message quotaError) ''429'' \<or> js_includes (message quotaError) ''quota'')"

definition selectModel :: "'s backend \<Rightarrow> 's \<Rightarrow> (jsError + tier \<times> bool) \<times> 's" where
  "selectModel backend s =
     (case backend Primary testPrompt s of
        (Inr testResult, s1) \<Rightarrow> (Inr (Primary, False), s1)
      | (Inl quotaError, s1) \<Rightarrow>
          if quotaSignal quotaError then (Inr (Fallback, True), s1) else (Inl quotaError, s1))"

subsection \<open>Code fences in the fallback reply\<close>

text \<open>
  \<open>text.match(/```(?:json)?\s*([\s\S]*?)```/)\<close>. The match starts at the leftmost
  position where the whole pattern can match. After the opening fence the optional tag is
  taken when it is there (and given back only if the rest fails), \<open>\s*\<close> takes all the
  white space (giving some back cannot help the rest to match, as white space holds no
  backtick), and the lazy group ends at the first closing fence. The result is the text
  of the group.
\<close>

definition fence :: string where
  "fence = ''```''"

fun splitAtFence :: "string \<Rightarrow> (string \<times> string) option" where
  "splitAtFence [] = None"
| "splitAtFence (c # cs) =
     (if prefix fence (c # cs) then Some ([], drop 3 (c # cs))
      else (case splitAtFence cs of None \<Rightarrow> None | Some (before, rest) \<Rightarrow> Some (c # before, rest)))"

definition closeFence :: "string \<Rightarrow> string option" where
  "closeFence r = map_option fst (splitAtFence (dropWhile isSpace r))"

definition matchAfterOpen :: "string \<Rightarrow> string option" where
  "matchAfterOpen r =
     (case (if prefix ''json'' r then closeFence (drop 4 r) else None) of
        Some g \<Rightarrow> Some g
      | None \<Rightarrow> closeFence r)"

fun matchFence :: "string \<Rightarrow> string option" where
  "matchFence [] = None"
| "matchFence (c # cs) =
     (case (if prefix fence (c # cs) then matchAfterOpen (drop 3 (c # cs)) else None) of
        Some g \<Rightarrow> Some g
      | None \<Rightarrow> matchFence cs)"

definition stripFence :: "bool \<Rightarrow> string \<Rightarrow> string" where
  "stripFence useGemma text =
     (if useGemma
      then (case matchFence text of Some jsonMatch \<Rightarrow> trim jsonMatch | None \<Rightarrow> text)
      else text)"

subsection \<open>The call\<close>

text \<open>
  \<open>JSON.parse\<close> is a parameter: \<open>None\<close> is its \<open>SyntaxError\<close>.
\<close>

definition parseReply :: "(string \<Rightarrow> json option) \<Rightarrow> string \<Rightarrow> jsError + json" where
  "parseReply JSON_parse text =
     (case JSON_parse text of
        None \<Rightarrow> Inl (Error ''AI returned invalid JSON response'')
      | Some aiResponse \<Rightarrow> normalizeResponse aiResponse)"

text \<open>
  The body of the \<open>try\<close> block, and the outer \<open>catch\<close>, through which every error
  leaves the call as an \<open>Error\<close> with one of three messages.
\<close>

definition analyzeBody ::
  "'s backend \<Rightarrow> (string \<Rightarrow> json option) \<Rightarrow> string \<Rightarrow> string option \<Rightarrow> 's
     \<Rightarrow> (jsError + json) \<times> 's" where
  "analyzeBody backend JSON_parse resumeText jobDescription s =
     (case selectModel backend s of
        (Inl e, s1) \<Rightarrow> (Inl e, s1)
      | (Inr (model, useGemma), s1) \<Rightarrow>
          (let prompt = buildAnalysisPrompt resumeText (defaultJobDescription jobDescription) in
           case backend model prompt s1 of
             (Inl e, s2) \<Rightarrow> (Inl e, s2)
           | (Inr text, s2) \<Rightarrow> (parseReply JSON_parse (stripFence useGemma text), s2)))"

definition classifyError :: "jsError \<Rightarrow> jsError" where
  "classifyError e =
     (if js_includes (message e) ''API key'' \<or> js_includes (message e) ''API_KEY_INVALID''
      then Error ''Invalid or missing Gemini API key. Check your .env file.''
      else if js_includes (message e) ''quota'' \<or> js_includes (message e) ''RESOURCE_EXHAUSTED''
      then Error ''Gemini API quota exceeded. Please try again later.''
      else Error (''AI analysis failed: '' @ message e))"

definition outerCatch :: "jsError + json \<Rightarrow> jsError + json" where
  "outerCatch r = (case r of Inl e \<Rightarrow> Inl (classifyError e) | Inr analysis \<Rightarrow> Inr analysis)"

definition analyzeResume ::
  "'s backend \<Rightarrow> (string \<Rightarrow> json option) \<Rightarrow> string \<Rightarrow> string option \<Rightarrow> 's
     \<Rightarrow> (jsError + json) \<times> 's" where
  "analyzeResume backend JSON_parse resumeText jobDescription s =
     (case analyzeBody backend JSON_parse resumeText jobDescription s of
        (r, s') \<Rightarrow> (outerCatch r, s'))"

definition resultOf :: "'r \<times> 's \<Rightarrow> 'r" where
  "resultOf run = fst run"

definition stateOf :: "'r \<times> 's \<Rightarrow> 's" where
  "stateOf run = snd run"

text \<open>
  What the backend is asked: \<open>recording backend\<close> is the backend that answers as
  \<open>backend\<close> does and appends every invocation it receives, tier and prompt, to a log it
  keeps in its state. \<open>invocations\<close> is the log after one call of \<open>analyzeResume\<close> on
  it, started with the empty log.
\<close>

definition recording :: "'s backend \<Rightarrow> ('s \<times> (tier \<times> string) list) backend" where
  "recording backend model prompt st =
     (case backend model prompt (fst st) of
        (reply, s') \<Rightarrow> (reply, (s', snd st @ [(model, prompt)])))"

definition invocations ::
  "'s backend \<Rightarrow> (string \<Rightarrow> json option) \<Rightarrow> string \<Rightarrow> string option \<Rightarrow> 's
     \<Rightarrow> (tier \<times> string) list" where
  "invocations backend JSON_parse resumeText jobDescription s =
     snd (stateOf (analyzeResume (recording backend) JSON_parse resumeText jobDescription (s, [])))"

definition field :: "jsError + json \<Rightarrow> string \<Rightarrow> json option" where
  "field r k = (case r of Inr v \<Rightarrow> member v k | Inl e \<Rightarrow> None)"

definition isNumber :: "json option \<Rightarrow> bool" where
  "isNumber v = (case v of Some (JNum n) \<Rightarrow> True | _ \<Rightarrow> False)"

section \<open>TextExtractor: \<open>parseResume\<close> (the file parser, second part of src/utils/aiAnalyzer.js)\<close>

text \<open>
  The libraries are parameters: \<open>path.extname\<close>, \<open>fs.readFile\<close>, \<open>pdf-parse\<close> and
  \<open>mammoth.extractRawText\<close>, each returning its value or throwing.
\<close>

record libraries =
  extname :: "string \<Rightarrow> string"
  readFile :: "string \<Rightarrow> jsError + string"
  pdfParse :: "string \<Rightarrow> jsError + string"
  extractRawText :: "string \<Rightarrow> jsError + string"

definition parsePDF :: "libraries \<Rightarrow> string \<Rightarrow> jsError + string" where
  "parsePDF lib filePath =
     (case readFile lib filePath of
        Inl e \<Rightarrow> Inl (Error (''PDF parsing failed: '' @ message e))
      | Inr dataBuffer \<Rightarrow>
          (case pdfParse lib dataBuffer of
             Inl e \<Rightarrow> Inl (Error (''PDF parsing failed: '' @ message e))
           | Inr text \<Rightarrow> Inr text))"

definition parseDOCX :: "libraries \<Rightarrow> string \<Rightarrow> jsError + string" where
  "parseDOCX lib filePath =
     (case extractRawText lib filePath of
        Inl e \<Rightarrow> Inl (Error (''DOCX parsing failed: '' @ message e))
      | Inr text \<Rightarrow> Inr text)"

text \<open>\<open>replace(/\s+/g, ' ')\<close>: every maximal run of white space becomes one space.\<close>

function collapseWhitespace :: "string \<Rightarrow> string" where
  "collapseWhitespace [] = []"
| "collapseWhitespace (c # cs) =
     (if isSpace c then CHR '' '' # collapseWhitespace (dropWhile isSpace cs)
      else c # collapseWhitespace cs)"
  by pat_completeness auto
termination
  by (relation "measure length") (auto simp: length_dropWhile_le less_Suc_eq_le)

definition unsupportedFormat :: jsError where
  "unsupportedFormat = Error ''Unsupported file format. Only PDF and DOCX are allowed.''"

definition textTooShort :: jsError where
  "textTooShort = Error ''Could not extract meaningful text from the file.''"

definition extractByExtension :: "libraries \<Rightarrow> string \<Rightarrow> jsError + string" where
  "extractByExtension lib filePath =
     (let ext = toLowerCase (extname lib filePath) in
      if ext = ''.pdf'' then parsePDF lib filePath
      else if ext = ''.docx'' then parseDOCX lib filePath
      else Inl unsupportedFormat)"

definition parseResume :: "libraries \<Rightarrow> string \<Rightarrow> jsError + string" where
  "parseResume lib filePath =
     (case extractByExtension lib filePath of
        Inl e \<Rightarrow> Inl e
      | Inr raw \<Rightarrow>
          (let extractedText = trim (collapseWhitespace raw) in
           if extractedText = [] \<or> length extractedText < 50 then Inl textTooShort
           else Inr extractedText))"

section \<open>Lifecycle manager: \<open>uploadResume\<close> (src/controllers/resumeController.js)\<close>

text \<open>
  The request: \<open>req.file\<close> as the upload middleware left it (absent, or the original name
  and the path of the temporary file it wrote), \<open>req.body.jobDescription\<close> (absent or a
  string) and \<open>req.user._id\<close>.
\<close>

record upload =
  originalname :: string
  path :: string

record request =
  reqFile :: "upload option"
  reqJobDescription :: "string option"
  reqUser :: string

datatype status = Processing | Completed | Failed

record resume =
  user :: string
  originalFileName :: string
  filePath :: string
  extractedText :: string
  jobDescription :: string
  analysis :: "json option"
  status :: status

text \<open>
  The world the handler acts on: the stored documents of the \<open>Resume\<close> collection (a
  document is identified by its position), the files on disk, and the lines written by
  \<open>console.warn\<close> and \<open>console.error\<close> (\<open>console.log\<close> is left out).
\<close>

record world =
  db :: "resume list"
  files :: "string set"
  logs :: "string list"

text \<open>
  The collaborators of one invocation. \<open>Resume.create\<close>, \<open>resume.save()\<close> and
  \<open>fs.unlink\<close> resolve (\<open>None\<close>) or reject with an error; \<open>save n doc\<close> is the
  outcome of the \<open>n\<close>-th call of \<open>resume.save()\<close> in the invocation, counted from 0, on
  the document \<open>doc\<close> (the store validates what it is given, and may fail for reasons of
  its own). A rejected \<open>save\<close> leaves the stored document as it was.
\<close>

record 's collaborators =
  libs :: libraries
  aiBackend :: "'s backend"
  jsonParse :: "string \<Rightarrow> json option"
  create :: "jsError option"
  save :: "nat \<Rightarrow> resume \<Rightarrow> jsError option"
  unlink :: "jsError option"

record response =
  code :: nat
  success :: bool
  msg :: string
  err :: "string option"
  payload :: "resume option"

definition unlinkFile :: "'s collaborators \<Rightarrow> string \<Rightarrow> string \<Rightarrow> world \<Rightarrow> world" where
  "unlinkFile env p warning w =
     (case unlink env of
        None \<Rightarrow> w\<lparr>files := files w - {p}\<rparr>
      | Some unlinkError \<Rightarrow> w\<lparr>logs := logs w @ [warning @ message unlinkError]\<rparr>)"

text \<open>The outer \<open>catch\<close> of the handler.\<close>

definition uploadError :: "'s collaborators \<Rightarrow> request \<Rightarrow> jsError \<Rightarrow> world \<Rightarrow> response \<times> world" where
  "uploadError env req e w =
     (let w1 = w\<lparr>logs := logs w @ [''Upload error: '' @ message e]\<rparr>;
          w2 = (case reqFile req of
                  Some f \<Rightarrow>
                    if path f \<noteq> []
                    then unlinkFile env (path f) ''Could not delete file after error: '' w1
                    else w1
                | None \<Rightarrow> w1)
      in (\<lparr>code = 500, success = False, msg = ''Error processing resume'',
           err = Some (message e), payload = None\<rparr>, w2))"

text \<open>
  The inner \<open>catch (aiError)\<close>: the document is marked failed and saved, and the handler
  returns from there.
\<close>

definition analysisFailed ::
  "'s collaborators \<Rightarrow> request \<Rightarrow> nat \<Rightarrow> resume \<Rightarrow> nat \<Rightarrow> jsError \<Rightarrow> world \<Rightarrow> response \<times> world" where
  "analysisFailed env req i doc n aiError w =
     (let failed = doc\<lparr>status := Failed\<rparr> in
      case save env n failed of
        Some e \<Rightarrow> uploadError env req e w
      | None \<Rightarrow>
          (\<lparr>code = 500, success = False, msg = ''AI analysis failed. Please try again.'',
            err = Some (message aiError), payload = None\<rparr>,
           w\<lparr>db := (db w)[i := failed]\<rparr>))"

text \<open>
  The handler. Besides the response and the world it leaves, the model returns the
  position of the document the invocation created, if it created one, and the state of
  the backend.
\<close>

definition uploadResume ::
  "'s collaborators \<Rightarrow> request \<Rightarrow> world \<Rightarrow> 's \<Rightarrow> response \<times> nat option \<times> world \<times> 's" where
  "uploadResume env req w s =
     (case reqFile req of
        None \<Rightarrow>
          (\<lparr>code = 400, success = False, msg = ''Please upload a resume file'',
            err = None, payload = None\<rparr>, None, w, s)
      | Some f \<Rightarrow>
          (case parseResume (libs env) (path f) of
             Inl e \<Rightarrow> (case uploadError env req e w of (res, w') \<Rightarrow> (res, None, w', s))
           | Inr text \<Rightarrow>
               (case create env of
                  Some e \<Rightarrow> (case uploadError env req e w of (res, w') \<Rightarrow> (res, None, w', s))
                | None \<Rightarrow>
                    (let doc = \<lparr>user = reqUser req, originalFileName = originalname f,
                                filePath = path f, extractedText = text,
                                jobDescription = defaultJobDescription (reqJobDescription req),
                                analysis = None, status = Processing\<rparr>;
                         i = length (db w);
                         w1 = w\<lparr>db := db w @ [doc]\<rparr>
                     in case analyzeResume (aiBackend env) (jsonParse env) text
                               (reqJobDescription req) s of
                          (Inr a, s') \<Rightarrow>
                            (let done = doc\<lparr>analysis := Some a, status := Completed\<rparr> in
                             case save env 0 done of
                               None \<Rightarrow>
                                 (let w2 = w1\<lparr>db := (db w1)[i := done]\<rparr>;
                                      w3 = unlinkFile env (path f)
                                             ''Could not delete temporary file: '' w2
                                  in (\<lparr>code = 201, success = True,
                                       msg = ''Resume analyzed successfully'',
                                       err = None, payload = Some done\<rparr>, Some i, w3, s'))
                             | Some aiError \<Rightarrow>
                                 (case analysisFailed env req i done 1 aiError w1 of
                                    (res, w') \<Rightarrow> (res, Some i, w', s')))
                        | (Inl aiError, s') \<Rightarrow>
                            (case analysisFailed env req i doc 0 aiError w1 of
                               (res, w') \<Rightarrow> (res, Some i, w', s'))))))"

text \<open>Concrete inputs used below.\<close>

definition exampleTips :: "json list" where
  "exampleTips =
     [JObj [(''category'', JStr ''impact''), (''suggestion'', JStr ''Quantify results'')],
      JObj [(''category'', JStr ''urgent''), (''suggestion'', JStr ''Add a summary'')],
      JObj [(''suggestion'', JStr ''No category at all''), (''category'', JNum 7)]]"

definition nullTipReply :: string where
  \<open>nullTipReply =
     ''{"actionableTips":[{"category":"urgent","suggestion":"Add a summary"},null]}''\<close>

definition parseNullTip :: "string \<Rightarrow> json option" where
  "parseNullTip reply =
     (if reply = nullTipReply
      then Some (JObj [(''actionableTips'',
                   JArr [JObj [(''category'', JStr ''urgent''), (''suggestion'', JStr ''Add a summary'')],
                         JNull])])
      else None)"

definition highScoreReply :: string where
  \<open>highScoreReply = ''{"matchScore":"high"}''\<close>

definition parseHighScore :: "string \<Rightarrow> json option" where
  "parseHighScore reply =
     (if reply = highScoreReply then Some (JObj [(''matchScore'', JStr ''high'')]) else None)"

definition sparseReply :: json where
  "sparseReply =
     JObj [(''matchScore'', JNull),
           (''foundKeywords'', JObj [(''hardSkills'', JArr [JStr ''React''])])]"

definition emptyAnalysis :: json where
  "emptyAnalysis =
     JObj [(''matchScore'', JNum 0),
           (''missingKeywords'',
              JObj [(''hardSkills'', JArr []), (''softSkills'', JArr []), (''certifications'', JArr [])]),
           (''foundKeywords'',
              JObj [(''hardSkills'', JArr []), (''softSkills'', JArr []), (''certifications'', JArr [])]),
           (''actionableTips'', JArr []),
           (''aiSummary'', JStr [])]"

definition parseEmptyObject :: "string \<Rightarrow> json option" where
  "parseEmptyObject reply = (if reply = ''{}'' then Some (JObj []) else None)"

definition recoveringBackend :: "nat backend" where
  "recoveringBackend model prompt n =
     (if n = 0 then Inl (Error ''[429 Too Many Requests] You exceeded your current quota'')
      else Inr ''{}'',
      Suc n)"

definition exhaustedBackend :: "string \<Rightarrow> unit backend" where
  "exhaustedBackend reply model prompt s =
     (if model = Primary then Inl (Error ''[429 Too Many Requests] Resource has been exhausted'')
      else Inr reply, s)"

definition healthyBackend :: "string \<Rightarrow> unit backend" where
  "healthyBackend reply model prompt s = (Inr reply, s)"

definition summaryJson :: string where
  \<open>summaryJson = ''{"summary":"Wrap code in ``` marks"}''\<close>

definition parseSummary :: "string \<Rightarrow> json option" where
  "parseSummary reply =
     (if reply = summaryJson then Some (JObj [(''summary'', JStr ''Wrap code in ``` marks'')])
      else None)"

definition cvText :: string where
  "cvText = ''Jane Doe. Senior engineer with ten years of React and Node.js experience.''"

definition scannedText :: string where
  "scannedText = ''  John   Doe\<newline>\<newline> React   developer  ''"


definition pdfLibraries :: "string \<Rightarrow> libraries" where
  "pdfLibraries pdfText =
     \<lparr>extname = (\<lambda>p. ''.PDF''), readFile = (\<lambda>p. Inr ''%PDF-1.7''),
      pdfParse = (\<lambda>b. Inr pdfText), extractRawText = (\<lambda>p. Inl (Error ''not a docx''))\<rparr>"

definition uploadRequest :: request where
  "uploadRequest =
     \<lparr>reqFile = Some \<lparr>originalname = ''cv.pdf'', path = ''uploads/1700000000-cv.pdf''\<rparr>,
      reqJobDescription = None, reqUser = ''u1''\<rparr>"

definition uploadedWorld :: world where
  "uploadedWorld = \<lparr>db = [], files = {''uploads/1700000000-cv.pdf''}, logs = []\<rparr>"

text \<open>
  The validator that the schema declares for \<open>analysis.matchScore\<close> (src/models/Resume.js:
  a number with \<open>min: 0\<close> and \<open>max: 100\<close>), and a store that rejects the documents
  failing it. The validator speaks of numbers only: what the schema does with a value that
  is not a number (its cast to \<open>Number\<close>) is not part of it, and this store accepts
  such a document.
\<close>

definition matchScoreValidator :: "resume \<Rightarrow> bool" where
  "matchScoreValidator doc =
     (case analysis doc of
        None \<Rightarrow> True
      | Some a \<Rightarrow>
          (case member a ''matchScore'' of Some (JNum n) \<Rightarrow> 0 \<le> n \<and> n \<le> 100 | _ \<Rightarrow> True))"

definition validationError :: jsError where
  "validationError =
     Error ''Resume validation failed: analysis.matchScore: Path `analysis.matchScore` (150) is more than maximum allowed value (100).''"

definition validatingSave :: "nat \<Rightarrow> resume \<Rightarrow> jsError option" where
  "validatingSave n doc = (if matchScoreValidator doc then None else Some validationError)"

definition parseScore150 :: "string \<Rightarrow> json option" where
  \<open>parseScore150 reply =
     (if reply = ''{"matchScore":150}'' then Some (JObj [(''matchScore'', JNum 150)]) else None)\<close>

definition overScoreEnv :: "unit collaborators" where
  \<open>overScoreEnv =
     \<lparr>libs = pdfLibraries cvText, aiBackend = healthyBackend ''{"matchScore":150}'',
      jsonParse = parseScore150, create = None, save = validatingSave,
      unlink = None\<rparr>\<close>

definition parseScore85 :: "string \<Rightarrow> json option" where
  \<open>parseScore85 reply =
     (if reply = ''{"matchScore":85}'' then Some (JObj [(''matchScore'', JNum 85)]) else None)\<close>

definition inRangeEnv :: "unit collaborators" where
  \<open>inRangeEnv =
     \<lparr>libs = pdfLibraries cvText, aiBackend = healthyBackend ''{"matchScore":85}'',
      jsonParse = parseScore85, create = None, save = validatingSave, unlink = None\<rparr>\<close>

definition invalidKeyBackend :: "unit backend" where
  "invalidKeyBackend model prompt s =
     (Inl (Error ''[400 Bad Request] API key not valid. Please pass a valid API key.''), s)"

definition invalidKeyEnv :: "unit collaborators" where
  "invalidKeyEnv =
     \<lparr>libs = pdfLibraries cvText, aiBackend = invalidKeyBackend,
      jsonParse = parseEmptyObject, create = None, save = (\<lambda>n doc. None), unlink = None\<rparr>"

definition scannedEnv :: "unit collaborators" where
  "scannedEnv =
     \<lparr>libs = pdfLibraries scannedText, aiBackend = healthyBackend ''{}'',
      jsonParse = parseEmptyObject, create = None, save = (\<lambda>n doc. None), unlink = None\<rparr>"


section \<open>Properties of the prompt\<close>



section \<open>Properties of the job matcher\<close>

lemma matchedCount_fold:
  "fold (\<lambda>skill n. if P skill then n + 1 else n) xs (k :: nat) = k + length (filter P xs)"
  by (induction xs arbitrary: k) auto

lemma findMatchedSkills_filter:
  "findMatchedSkills j skills
   = filter (\<lambda>skill. js_includes (jobText j) (toLowerCase skill)) (allSkills skills)"
proof -
  have "fold (\<lambda>skill matched. if P skill then matched @ [skill] else matched) xs acc
        = acc @ filter P xs" for P :: "string \<Rightarrow> bool" and xs acc
    by (induction xs arbitrary: acc) auto
  then show ?thesis
    by (simp add: findMatchedSkills_def)
qed

lemma calculateMatchScore_range:
  "0 \<le> calculateMatchScore j skills \<and> calculateMatchScore j skills \<le> 100"
  by (simp add: calculateMatchScore_def Let_def)

lemma calculateMatchScore_empty:
  "allSkills skills = [] \<Longrightarrow> calculateMatchScore j skills = 50"
  by (simp add: calculateMatchScore_def)

text \<open>
  The rounding model: \<open>log2floor\<close> is the binary exponent, and rounding to binary64
  moves a positive value by at most half a unit in the last place, a relative error of at
  most \<open>2^-53\<close>. The percentage the scoring computes is therefore within \<open>2^-45\<close> of the
  exact one.
\<close>

lemma bitlen_pos_bounds:
  assumes "0 < (a::int)"
  shows "(2::rat) powi (bitlen a - 1) \<le> of_int a \<and> of_int a < (2::rat) powi (bitlen a)"
proof -
  from assms have b: "2 ^ nat (bitlen a - 1) \<le> a \<and> a < 2 ^ nat (bitlen a)"
    by (rule bitlen_bounds)
  from assms have pos: "0 < bitlen a"
    using bitlen_eq_zero_iff [of a] bitlen_nonneg [of a] by linarith
  have "(2::rat) powi (bitlen a - 1) = of_int (2 ^ nat (bitlen a - 1))"
    using pos by (simp add: power_int_def)
  moreover have "(2::rat) powi (bitlen a) = of_int (2 ^ nat (bitlen a))"
    using pos by (simp add: power_int_def)
  ultimately show ?thesis
    using b by (metis of_int_le_iff of_int_less_iff)
qed

lemma log2floor_bounds:
  assumes "0 < q"
  shows "2 powi (log2floor q) \<le> q \<and> q < 2 powi (log2floor q + 1)"
proof -
  obtain a b where ab: "quotient_of q = (a, b)" by (cases "quotient_of q")
  then have bpos: "0 < b" using quotient_of_denom_pos by blast
  have q: "q = of_int a / of_int b" using ab by (rule quotient_of_div)
  with assms bpos have apos: "0 < a"
    by (simp add: zero_less_divide_iff)
  let ?e = "bitlen a - bitlen b"
  note A = bitlen_pos_bounds [OF apos] and B = bitlen_pos_bounds [OF bpos]
  have bq: "(0::rat) < of_int b" using bpos by simp
  have upper: "q < 2 powi (?e + 1)"
  proof -
    have "of_int a < (2::rat) powi (bitlen a)" using A by simp
    also have "\<dots> = 2 powi (?e + 1) * 2 powi (bitlen b - 1)"
      by (simp add: power_int_add [symmetric])
    also have "\<dots> \<le> 2 powi (?e + 1) * of_int b"
      using B by (simp add: mult_left_mono)
    finally show ?thesis
      using bq by (simp add: q pos_divide_less_eq)
  qed
  have lower: "2 powi (?e - 1) \<le> q"
  proof -
    have "(2::rat) powi (?e - 1) * of_int b \<le> 2 powi (?e - 1) * 2 powi (bitlen b)"
      using B by (simp add: mult_left_mono)
    also have "\<dots> = 2 powi (bitlen a - 1)"
      by (simp add: power_int_add [symmetric])
    also have "\<dots> \<le> of_int a" using A by simp
    finally show ?thesis
      using bq by (simp add: q pos_le_divide_eq)
  qed
  show ?thesis
  proof (cases "2 powi ?e \<le> q")
    case True
    then have "log2floor q = ?e" by (simp add: log2floor_def ab)
    with True upper show ?thesis by simp
  next
    case False
    then have "log2floor q = ?e - 1" by (simp add: log2floor_def ab)
    with False lower show ?thesis by simp
  qed
qed

lemma roundTiesToEven_error: "\<bar>of_int (roundTiesToEven r) - r\<bar> \<le> 1 / 2"
proof -
  have "of_int \<lfloor>r\<rfloor> \<le> r" "r < of_int \<lfloor>r\<rfloor> + 1" by linarith+
  then show ?thesis
    by (auto simp: roundTiesToEven_def Let_def abs_le_iff)
qed

lemma double_error:
  assumes "0 < q"
  shows "\<bar>double q - q\<bar> \<le> q / 2 ^ 53"
proof -
  let ?u = "(2::rat) powi (log2floor q - 52)"
  have upos: "0 < ?u" by simp
  have d: "double q = of_int (roundTiesToEven (q / ?u)) * ?u"
    using assms by (simp add: double_def Let_def)
  have "double q - q = (of_int (roundTiesToEven (q / ?u)) - q / ?u) * ?u"
    using upos by (simp add: d left_diff_distrib)
  then have "\<bar>double q - q\<bar> = \<bar>of_int (roundTiesToEven (q / ?u)) - q / ?u\<bar> * \<bar>?u\<bar>"
    by (simp only: abs_mult)
  also have "\<dots> = \<bar>of_int (roundTiesToEven (q / ?u)) - q / ?u\<bar> * ?u"
    using upos by simp
  also have "\<dots> \<le> 1 / 2 * ?u"
    using roundTiesToEven_error [of "q / ?u"] upos by (intro mult_right_mono) simp_all
  also have "\<dots> = 2 powi (log2floor q) / 2 ^ 53"
    by (simp add: power_int_diff)
  also have "\<dots> \<le> q / 2 ^ 53"
    using log2floor_bounds [OF assms] by (simp add: divide_right_mono)
  finally show ?thesis .
qed

lemma double_nonneg: "0 \<le> q \<Longrightarrow> 0 \<le> double q"
proof -
  assume "0 \<le> q"
  have "0 \<le> roundTiesToEven r" if "0 \<le> r" for r
    using that by (auto simp: roundTiesToEven_def Let_def)
  then show ?thesis
    using \<open>0 \<le> q\<close> by (simp add: double_def Let_def)
qed

lemma percentage_error:
  assumes "0 < m" "m \<le> t"
  shows "\<bar>js_mul (js_div (of_nat m) (of_nat t)) 100 - 100 * of_nat m / of_nat t\<bar> < 1 / 2 ^ 45"
proof -
  let ?x = "of_nat m / of_nat t :: rat"
  from assms have tpos: "0 < t" by simp
  have x: "0 < ?x" "?x \<le> 1"
    using assms by simp_all
  let ?d1 = "double ?x"
  have e1: "\<bar>?d1 - ?x\<bar> \<le> ?x / 2 ^ 53"
    using x(1) by (rule double_error)
  have "?x / 2 ^ 53 \<le> 1 / 2 ^ 53"
    using x(2) by (intro divide_right_mono) simp_all
  with e1 have e1': "\<bar>?d1 - ?x\<bar> \<le> 1 / 2 ^ 53"
    by linarith
  have d1pos: "0 < ?d1"
  proof -
    have "?x / 2 ^ 53 < ?x" using x(1) by simp
    with e1 show ?thesis by linarith
  qed
  have small: "(1::rat) / 2 ^ 53 \<le> 1 / 100"
    by simp
  have d1le: "?d1 \<le> 101 / 100"
    using e1' x(2) small by linarith
  let ?y = "?d1 * 100"
  have y: "0 < ?y" "?y \<le> 101"
    using d1pos d1le by linarith+
  have e2: "\<bar>double ?y - ?y\<bar> \<le> ?y / 2 ^ 53"
    using y(1) by (rule double_error)
  have "?y / 2 ^ 53 \<le> 101 / 2 ^ 53"
    using y(2) by (intro divide_right_mono) simp_all
  with e2 have e2': "\<bar>double ?y - ?y\<bar> \<le> 101 / 2 ^ 53"
    by linarith
  have e3: "\<bar>?y - 100 * ?x\<bar> \<le> 100 / 2 ^ 53"
    using e1' by linarith
  have "\<bar>double ?y - 100 * ?x\<bar> \<le> 201 / 2 ^ 53"
    using e2' e3 by linarith
  also have "\<dots> < (1::rat) / 2 ^ 45"
    by simp
  finally show ?thesis
    by (simp add: js_mul_def js_div_def)
qed

lemma floor_stable:
  fixes u v d :: rat
  assumes "\<bar>v - u\<bar> < d" "of_int \<lfloor>u\<rfloor> + d \<le> u" "u + d \<le> of_int \<lfloor>u\<rfloor> + 1"
  shows "\<lfloor>v\<rfloor> = \<lfloor>u\<rfloor>"
proof (rule floor_unique)
  show "of_int \<lfloor>u\<rfloor> \<le> v" using assms by (simp add: abs_less_iff)
  show "v < of_int \<lfloor>u\<rfloor> + 1" using assms by (simp add: abs_less_iff)
qed

lemma fraction_away_from_integers:
  fixes a b :: int
  assumes "0 < b" "a mod b \<noteq> 0"
  shows "(of_int \<lfloor>of_int a / of_int b :: rat\<rfloor> :: rat) + 1 / of_int b \<le> of_int a / of_int b
       \<and> (of_int a / of_int b :: rat) + 1 / of_int b \<le> of_int \<lfloor>of_int a / of_int b :: rat\<rfloor> + 1"
proof -
  define r :: rat where "r = of_int a / of_int b"
  have fl: "(of_int \<lfloor>r\<rfloor> :: rat) = of_int (a div b)"
    by (simp add: r_def floor_divide_of_int_eq)
  have a: "a = (a div b) * b + a mod b" by simp
  have m: "1 \<le> a mod b" "a mod b \<le> b - 1"
    using assms pos_mod_sign [of b a] pos_mod_bound [of b a] by linarith+
  have bq: "(0::rat) < of_int b" using assms by simp
  have "(of_int a :: rat) = of_int (a div b) * of_int b + of_int (a mod b)"
    by (metis a of_int_add of_int_mult)
  then have q: "r = of_int (a div b) + of_int (a mod b) / of_int b"
    using bq by (simp add: r_def add_divide_distrib)
  have lo: "(1::rat) / of_int b \<le> of_int (a mod b) / of_int b"
    using m(1) bq by (simp add: divide_right_mono)
  have hi: "(of_int (a mod b) :: rat) / of_int b + 1 / of_int b \<le> 1"
  proof -
    have "a mod b + 1 \<le> b" using m(2) by simp
    then have "(of_int (a mod b + 1) :: rat) \<le> of_int b"
      by (simp only: of_int_le_iff)
    then have "((of_int (a mod b) :: rat) + 1) / of_int b \<le> 1"
      using bq by (simp add: pos_divide_le_eq)
    then show ?thesis by (simp add: add_divide_distrib)
  qed
  have "of_int \<lfloor>r\<rfloor> + 1 / of_int b \<le> r \<and> r + 1 / of_int b \<le> of_int \<lfloor>r\<rfloor> + (1::rat)"
    using lo hi fl q by linarith
  then show ?thesis
    by (simp only: r_def)
qed

text \<open>
  The model on values that are well known: the binary64 values of \<open>0.1\<close> and
  \<open>1/3\<close>, the product \<open>0.1 * 3 = 0.30000000000000004\<close>, and the product
  \<open>(29/200) * 100 = 14.499999999999998\<close>.
\<close>

lemma double_known_values:
  "js_div 1 10 = 3602879701896397 / 36028797018963968
   \<and> js_div 1 3 = 6004799503160661 / 18014398509481984
   \<and> js_mul (js_div 1 10) 3 = 1351079888211149 / 4503599627370496
   \<and> js_mul (js_div 29 200) 100 = 8162774324609023 / 562949953421312
   \<and> js_div 1 2 = 1 / 2 \<and> js_mul (js_div 1 8) 100 = 25 / 2"
  by code_simp

text \<open>
  Claim C3, at a listing and a skill set of forty skills of which twenty-three occur in the
  listing. The quotient \<open>23 / 40\<close> is not a binary64 value; the nearest one lies below it,
  its product with 100 rounds to the binary64 value just below \<open>57.5\<close>, and
  \<open>Math.round\<close> returns 57. The claimed value, the rounding of \<open>100 \<times> 23 / 40 = 57.5\<close>,
  is 58.
\<close>

theorem calculateMatchScore_23_of_40:
  "length (allSkills fortySkills) = 40
   \<and> length (findMatchedSkills alphabetJob fortySkills) = 23
   \<and> js_div 23 40 = 2589569785738035 / 4503599627370496
   \<and> js_mul (js_div 23 40) 100 = 8092405580431359 / 140737488355328
   \<and> calculateMatchScore alphabetJob fortySkills = 57
   \<and> exactRound (100 * 23 / 40) = 58"
  by code_simp

text \<open>
  Away from the ties the code and the exact rounding agree: for fewer than \<open>2^44\<close> skills,
  when \<open>100 \<times> matchedCount / totalSkills\<close> is not half-way between two integers the
  score is its exact rounding.
\<close>

lemma calculateMatchScore_exact_unless_tie:
  fixes j :: "'a job_scheme" and skills :: userSkills
  defines "t \<equiv> length (allSkills skills)"
  defines "m \<equiv> length (findMatchedSkills j skills)"
  assumes t: "0 < t" "t < 2 ^ 44"
    and no_tie: "(200 * int m + int t) mod (2 * int t) \<noteq> 0"
  shows "calculateMatchScore j skills = exactRound (100 * of_nat m / of_nat t)"
proof -
  have m_le: "m \<le> t"
    by (simp add: m_def t_def findMatchedSkills_filter)
  have code: "calculateMatchScore j skills
      = min 100 (max 0 (Math_round (js_mul (js_div (of_nat m) (of_nat t)) 100)))"
    using t(1)
    by (simp add: calculateMatchScore_def Let_def matchedCount_fold m_def t_def
        findMatchedSkills_filter)
  let ?x = "of_nat m / of_nat t :: rat"
  have x: "0 \<le> ?x" "?x \<le> 1"
    using m_le t(1) by simp_all
  have range: "0 \<le> exactRound (100 * ?x) \<and> exactRound (100 * ?x) \<le> 100"
  proof -
    have "0 \<le> 100 * ?x + 1 / 2" "100 * ?x + 1 / 2 < 101"
      using x by linarith+
    then show ?thesis
      by (simp add: exactRound_def floor_less_iff le_floor_iff)
  qed
  have "Math_round (js_mul (js_div (of_nat m) (of_nat t)) 100) = exactRound (100 * ?x)"
  proof (cases "m = 0")
    case True
    then show ?thesis
      by (simp add: js_mul_def js_div_def double_def Math_round_def exactRound_def)
  next
    case False
    then have mpos: "0 < m" by simp
    let ?a = "200 * int m + int t" and ?b = "2 * int t"
    have bpos: "0 < ?b" using t(1) by simp
    have u: "(of_int ?a / of_int ?b :: rat) = 100 * ?x + 1 / 2"
      using t(1) by (simp add: field_simps)
    have away: "(of_int \<lfloor>of_int ?a / of_int ?b :: rat\<rfloor> :: rat) + 1 / of_int ?b
          \<le> of_int ?a / of_int ?b
        \<and> (of_int ?a / of_int ?b :: rat) + 1 / of_int ?b
          \<le> of_int \<lfloor>of_int ?a / of_int ?b :: rat\<rfloor> + 1"
      using bpos no_tie by (rule fraction_away_from_integers)
    have "?b \<le> 2 ^ 45" using t(2) by simp
    then have "(of_int ?b :: rat) \<le> 2 ^ 45"
      by (metis of_int_le_iff of_int_numeral of_int_power)
    then have gap: "(1::rat) / 2 ^ 45 \<le> 1 / of_int ?b"
      using bpos by (intro divide_left_mono) simp_all
    have close: "\<bar>(js_mul (js_div (of_nat m) (of_nat t)) 100 + 1 / 2) - (100 * ?x + 1 / 2)\<bar>
        < 1 / 2 ^ 45"
      using percentage_error [OF mpos m_le] by simp
    have "\<lfloor>js_mul (js_div (of_nat m) (of_nat t)) 100 + 1 / 2\<rfloor> = \<lfloor>100 * ?x + 1 / 2\<rfloor>"
    proof (rule floor_stable [where d = "1 / 2 ^ 45"])
      show "\<bar>(js_mul (js_div (of_nat m) (of_nat t)) 100 + 1 / 2) - (100 * ?x + 1 / 2)\<bar>
        < 1 / 2 ^ 45"
        by (rule close)
      show "of_int \<lfloor>100 * ?x + 1 / 2\<rfloor> + 1 / 2 ^ 45 \<le> 100 * ?x + 1 / 2"
        using away gap unfolding u by linarith
      show "100 * ?x + 1 / 2 + 1 / 2 ^ 45 \<le> of_int \<lfloor>100 * ?x + 1 / 2\<rfloor> + 1"
        using away gap unfolding u by linarith
    qed
    then show ?thesis
      by (simp add: Math_round_def exactRound_def)
  qed
  with code range show ?thesis
    by simp
qed

lemma insertBy_byScoreDescending:
  "insertBy byScoreDescending x xs = insort_key (\<lambda>j. - matchScore j) x xs"
  by (induction xs) (auto simp: byScoreDescending_def)

lemma rankJobs_sort_key: "rankJobs xs = sort_key (\<lambda>j. - matchScore j) xs"
proof -
  have "insertBy byScoreDescending = insort_key (\<lambda>j. - matchScore j)"
    by (intro ext) (rule insertBy_byScoreDescending)
  then show ?thesis
    by (simp add: rankJobs_def js_sort_def sort_key_def)
qed

lemma rankJobs_descending:
  "sorted_wrt (\<lambda>a b. matchScore b \<le> matchScore a) (rankJobs xs)"
proof -
  have "sorted (map (\<lambda>j. - matchScore j) (rankJobs xs))"
    unfolding rankJobs_sort_key by (rule sorted_sort_key)
  then show ?thesis
    by (simp add: sorted_map)
qed

lemma rankJobs_stable:
  "filter (\<lambda>j. matchScore j = k) (rankJobs xs) = filter (\<lambda>j. matchScore j = k) xs"
proof -
  have "filter (\<lambda>j. - matchScore j = - k) (sort_key (\<lambda>j. - matchScore j) xs)
        = filter (\<lambda>j. - matchScore j = - k) xs"
    by (rule sort_key_stable)
  then show ?thesis
    by (simp add: rankJobs_sort_key)
qed

text \<open>
  Claim C6. The ranked sequence is in descending order of \<open>matchScore\<close>, and for every
  score the listings with that score stand in the ranked sequence in the order they had
  in the input (the sort is stable); this holds of \<open>rankJobs\<close> on every sequence of scored
  listings and so of \<open>matchJobsWithResume\<close> on the listings as the upstream source
  returned them. Listings with the scores 40, 90, 40, 10 come out as 90, 40, 40, 10 with
  the first 40 still before the second.
\<close>

theorem ranking_descending_and_stable:
  "sorted_wrt (\<lambda>a b. matchScore b \<le> matchScore a) (rankJobs xs)
   \<and> (\<forall>k. filter (\<lambda>j. matchScore j = k) (rankJobs xs) = filter (\<lambda>j. matchScore j = k) xs)
   \<and> sorted_wrt (\<lambda>a b. matchScore b \<le> matchScore a) (matchJobsWithResume skills jobs)
   \<and> (\<forall>k. filter (\<lambda>j. matchScore j = k) (matchJobsWithResume skills jobs)
          = filter (\<lambda>j. matchScore j = k) (map (scoreJob skills) jobs))
   \<and> map (\<lambda>j. (jobId j, matchScore j))
         (rankJobs [listing ''first'' 40, listing ''second'' 90, listing ''third'' 40,
                    listing ''fourth'' 10])
       = [(''second'', 90), (''first'', 40), (''third'', 40), (''fourth'', 10)]"
proof -
  have example: "map (\<lambda>j. (jobId j, matchScore j))
         (rankJobs [listing ''first'' 40, listing ''second'' 90, listing ''third'' 40,
                    listing ''fourth'' 10])
       = [(''second'', 90), (''first'', 40), (''third'', 40), (''fourth'', 10)]"
    by (simp add: rankJobs_def js_sort_def listing_def byScoreDescending_def)
  show ?thesis
    unfolding matchJobsWithResume_def
    using rankJobs_descending rankJobs_stable example by blast
qed

section \<open>Properties of the normalization\<close>

lemma getProp_not_null: "v \<noteq> JNull \<Longrightarrow> getProp v k = Inr (member v k)"
  by (simp add: getProp_def)

lemma member_update:
  "member (JObj (AList.update k v props)) k' = (if k' = k then Some v else map_of props k')"
  by (simp add: member_def update_conv')

lemma normalizeTip_not_null:
  "tip \<noteq> JNull \<Longrightarrow>
   normalizeTip tip
   = Inr (JObj (AList.update ''category''
            (if arrayIncludes validCategories (member tip ''category'')
             then the (member tip ''category'') else JStr ''content'')
            (spread tip)))"
  by (simp add: normalizeTip_def getProp_not_null)

lemma arrayIncludes_iff:
  "arrayIncludes xs v = (\<exists>c \<in> set xs. v = Some (JStr c))"
  by (auto simp: arrayIncludes_def split: option.splits json.splits)

lemma mapTips_not_null:
  "JNull \<notin> set tips \<Longrightarrow>
   \<exists>ts. mapTips tips = Inr ts \<and> length ts = length tips
        \<and> (\<forall>i < length tips. normalizeTip (tips ! i) = Inr (ts ! i))"
proof (induction tips)
  case Nil
  then show ?case by simp
next
  case (Cons tip tips)
  then obtain ts where ts: "mapTips tips = Inr ts" "length ts = length tips"
      "\<forall>i < length tips. normalizeTip (tips ! i) = Inr (ts ! i)"
    by auto
  from Cons.prems have "tip \<noteq> JNull" by auto
  then obtain t where t: "normalizeTip tip = Inr t"
    by (simp add: normalizeTip_not_null)
  have "mapTips (tip # tips) = Inr (t # ts)"
    by (simp add: t ts)
  moreover have "\<forall>i < length (tip # tips). normalizeTip ((tip # tips) ! i) = Inr ((t # ts) ! i)"
    using t ts(3) by (auto simp: nth_Cons split: nat.splits)
  ultimately show ?case
    using ts(2) by auto
qed

text \<open>
  Tips other than \<open>null\<close>. Such a tip is normalized to an object whose \<open>category\<close> is
  the tip's own category when that is one of the five valid strings, and \<open>content\<close> in
  every other case (a category that is missing, is another string, or is not a string);
  the other properties are copied. A reply whose \<open>actionableTips\<close> is an array of such
  tips is normalized with success, tip by tip, whatever their categories are.
\<close>

lemma tip_category_coercion:
  "(tip \<noteq> JNull \<longrightarrow>
      (\<exists>t. normalizeTip tip = Inr t
         \<and> (\<forall>c. c \<in> set validCategories \<and> member tip ''category'' = Some (JStr c)
                \<longrightarrow> member t ''category'' = Some (JStr c))
         \<and> ((\<forall>c \<in> set validCategories. member tip ''category'' \<noteq> Some (JStr c))
                \<longrightarrow> member t ''category'' = Some (JStr ''content''))
         \<and> (\<forall>k. k \<noteq> ''category'' \<longrightarrow> member t k = map_of (spread tip) k)))
   \<and> (aiResponse \<noteq> JNull \<and> member aiResponse ''actionableTips'' = Some (JArr tips)
        \<and> JNull \<notin> set tips \<longrightarrow>
      (\<exists>r ts. normalizeResponse aiResponse = Inr r
         \<and> member r ''actionableTips'' = Some (JArr ts)
         \<and> length ts = length tips
         \<and> (\<forall>i < length tips. normalizeTip (tips ! i) = Inr (ts ! i))))"
proof (intro conjI impI)
  assume nn: "tip \<noteq> JNull"
  let ?t = "JObj (AList.update ''category''
            (if arrayIncludes validCategories (member tip ''category'')
             then the (member tip ''category'') else JStr ''content'')
            (spread tip))"
  have eq: "normalizeTip tip = Inr ?t"
    using nn by (rule normalizeTip_not_null)
  have valid: "\<forall>c. c \<in> set validCategories \<and> member tip ''category'' = Some (JStr c)
                \<longrightarrow> member ?t ''category'' = Some (JStr c)"
    by (auto simp: member_update arrayIncludes_iff)
  have invalid: "(\<forall>c \<in> set validCategories. member tip ''category'' \<noteq> Some (JStr c))
                \<longrightarrow> member ?t ''category'' = Some (JStr ''content'')"
    by (auto simp: member_update arrayIncludes_iff)
  have rest: "\<forall>k. k \<noteq> ''category'' \<longrightarrow> member ?t k = map_of (spread tip) k"
    by (simp add: member_update)
  show "\<exists>t. normalizeTip tip = Inr t
         \<and> (\<forall>c. c \<in> set validCategories \<and> member tip ''category'' = Some (JStr c)
                \<longrightarrow> member t ''category'' = Some (JStr c))
         \<and> ((\<forall>c \<in> set validCategories. member tip ''category'' \<noteq> Some (JStr c))
                \<longrightarrow> member t ''category'' = Some (JStr ''content''))
         \<and> (\<forall>k. k \<noteq> ''category'' \<longrightarrow> member t k = map_of (spread tip) k)"
    using eq valid invalid rest by blast
next
  assume a: "aiResponse \<noteq> JNull \<and> member aiResponse ''actionableTips'' = Some (JArr tips)
        \<and> JNull \<notin> set tips"
  then obtain ts where ts: "mapTips tips = Inr ts" "length ts = length tips"
      "\<forall>i < length tips. normalizeTip (tips ! i) = Inr (ts ! i)"
    using mapTips_not_null by blast
  have "normalizeTips (orElse (member aiResponse ''actionableTips'') (JArr [])) = Inr ts"
    using a ts(1) by (simp add: orElse_def normalizeTips_def)
  then have "\<exists>r. normalizeResponse aiResponse = Inr r \<and> member r ''actionableTips'' = Some (JArr ts)"
    using a by (simp add: normalizeResponse_def getProp_not_null member_def)
  then show "\<exists>r ts. normalizeResponse aiResponse = Inr r
         \<and> member r ''actionableTips'' = Some (JArr ts)
         \<and> length ts = length tips
         \<and> (\<forall>i < length tips. normalizeTip (tips ! i) = Inr (ts ! i))"
    using ts by blast
qed

lemma tip_category_coercion_example:
  "normalizeTip (JObj [(''category'', JStr ''urgent''), (''priority'', JStr ''high'')])
     = Inr (JObj [(''category'', JStr ''content''), (''priority'', JStr ''high'')])
   \<and> normalizeTip (JObj [(''category'', JStr ''impact'')]) = Inr (JObj [(''category'', JStr ''impact'')])
   \<and> field (normalizeResponse (JObj [(''actionableTips'', JArr exampleTips)])) ''actionableTips''
     = Some (JArr
        [JObj [(''category'', JStr ''impact''), (''suggestion'', JStr ''Quantify results'')],
         JObj [(''category'', JStr ''content''), (''suggestion'', JStr ''Add a summary'')],
         JObj [(''suggestion'', JStr ''No category at all''), (''category'', JStr ''content'')]])"
  using tip_category_coercion [of "JObj [(''category'', JStr ''urgent''), (''priority'', JStr ''high'')]"
      "JObj [(''actionableTips'', JArr exampleTips)]" exampleTips]
  by (simp add: normalizeTip_def getProp_def member_def arrayIncludes_def validCategories_def
      spread_def field_def normalizeResponse_def normalizeTips_def orElse_def exampleTips_def
      keywordBuckets_def optChain_def)

text \<open>
  Claim C7, at a reply whose \<open>actionableTips\<close> array holds \<open>null\<close>. In the reply
  \<open>{"actionableTips":[{"category":"urgent","suggestion":"Add a summary"},null]}\<close> the
  first tip has a category outside the five valid values and is normalized to category
  \<open>content\<close>. The second tip is \<open>null\<close>: reading \<open>tip.category\<close> throws a
  \<open>TypeError\<close>, no normalized tip is produced for it, and the error leaves \<open>analyzeResume\<close>
  through the outer handler: the whole analysis fails, on the primary and on the fallback
  tier alike.
\<close>

theorem null_tip_fails_whole_analysis:
  "parseNullTip nullTipReply
     = Some (JObj [(''actionableTips'',
               JArr [JObj [(''category'', JStr ''urgent''), (''suggestion'', JStr ''Add a summary'')],
                     JNull])])
   \<and> normalizeTip (JObj [(''category'', JStr ''urgent''), (''suggestion'', JStr ''Add a summary'')])
       = Inr (JObj [(''category'', JStr ''content''), (''suggestion'', JStr ''Add a summary'')])
   \<and> normalizeTip JNull
       = Inl (TypeError (''Cannot read properties of null (reading '' @ [CHR 0x27] @ ''category''
                          @ [CHR 0x27] @ '')''))
   \<and> resultOf (analyzeResume (healthyBackend nullTipReply) parseNullTip ''cv'' None ())
       = Inl (Error (''AI analysis failed: Cannot read properties of null (reading ''
                      @ [CHR 0x27] @ ''category'' @ [CHR 0x27] @ '')''))
   \<and> resultOf (analyzeResume (exhaustedBackend nullTipReply) parseNullTip ''cv'' None ())
       = Inl (Error (''AI analysis failed: Cannot read properties of null (reading ''
                      @ [CHR 0x27] @ ''category'' @ [CHR 0x27] @ '')''))"
  by code_simp

lemma keywordBuckets_default:
  "optChain kw b = None \<Longrightarrow> b \<in> {''hardSkills'', ''softSkills'', ''certifications''}
   \<Longrightarrow> member (keywordBuckets kw) b = Some (JArr [])"
  by (auto simp: keywordBuckets_def member_def orElse_def)

lemma normalizeResponse_Inr:
  assumes "normalizeResponse aiResponse = Inr r"
  shows "\<exists>tips. r = JObj
                 [(''matchScore'', orElse (member aiResponse ''matchScore'') (JNum 0)),
                  (''missingKeywords'', keywordBuckets (member aiResponse ''missingKeywords'')),
                  (''foundKeywords'', keywordBuckets (member aiResponse ''foundKeywords'')),
                  (''actionableTips'', JArr tips),
                  (''aiSummary'', orElse (member aiResponse ''summary'') (JStr []))]"
  using assms
  by (auto simp: normalizeResponse_def getProp_def split: if_splits sum.splits)

text \<open>
  What the normalization does with absent and falsy fields. In the normalized analysis
  each of the six keyword buckets is the empty array when the bucket is absent from the
  reply (also when the whole \<open>missingKeywords\<close> or \<open>foundKeywords\<close> object is absent);
  \<open>matchScore\<close> is 0 when the field is absent or falsy (\<open>null\<close>, \<open>false\<close>, \<open>0\<close>, the
  empty string) and is the reply's value unchanged when that is truthy; \<open>aiSummary\<close> is
  the empty string when \<open>summary\<close> is absent. The normalization returns an analysis for
  every reply that is not \<open>null\<close> and whose \<open>actionableTips\<close> is falsy or an array
  without \<open>null\<close>.
\<close>

lemma normalization_defaults:
  "(normalizeResponse aiResponse = Inr r \<longrightarrow>
      (\<forall>kw \<in> {''missingKeywords'', ''foundKeywords''}.
         \<forall>b \<in> {''hardSkills'', ''softSkills'', ''certifications''}.
           optChain (member aiResponse kw) b = None \<longrightarrow> optChain (member r kw) b = Some (JArr []))
      \<and> (\<not> truthy (member aiResponse ''matchScore'') \<longrightarrow> member r ''matchScore'' = Some (JNum 0))
      \<and> (truthy (member aiResponse ''matchScore'')
            \<longrightarrow> member r ''matchScore'' = member aiResponse ''matchScore'')
      \<and> (member aiResponse ''summary'' = None \<longrightarrow> member r ''aiSummary'' = Some (JStr [])))
   \<and> (aiResponse \<noteq> JNull
        \<and> (\<not> truthy (member aiResponse ''actionableTips'')
             \<or> (\<exists>tips. member aiResponse ''actionableTips'' = Some (JArr tips) \<and> JNull \<notin> set tips))
        \<longrightarrow> (\<exists>r. normalizeResponse aiResponse = Inr r))"
proof (intro conjI impI)
  assume "normalizeResponse aiResponse = Inr r"
  then obtain tips where r: "r = JObj
                 [(''matchScore'', orElse (member aiResponse ''matchScore'') (JNum 0)),
                  (''missingKeywords'', keywordBuckets (member aiResponse ''missingKeywords'')),
                  (''foundKeywords'', keywordBuckets (member aiResponse ''foundKeywords'')),
                  (''actionableTips'', JArr tips),
                  (''aiSummary'', orElse (member aiResponse ''summary'') (JStr []))]"
    using normalizeResponse_Inr by blast
  have kb: "optChain (Some (keywordBuckets kw)) b = member (keywordBuckets kw) b" for kw b
    by (simp add: optChain_def keywordBuckets_def)
  show "\<forall>kw \<in> {''missingKeywords'', ''foundKeywords''}.
         \<forall>b \<in> {''hardSkills'', ''softSkills'', ''certifications''}.
           optChain (member aiResponse kw) b = None \<longrightarrow> optChain (member r kw) b = Some (JArr [])"
    using keywordBuckets_default by (auto simp: r member_def [of "JObj _"] kb)
  show "member r ''matchScore'' = Some (JNum 0)" if "\<not> truthy (member aiResponse ''matchScore'')"
    using that by (auto simp: r member_def [of "JObj _"] orElse_def split: option.splits)
  show "member r ''matchScore'' = member aiResponse ''matchScore''"
    if "truthy (member aiResponse ''matchScore'')"
    using that by (cases "member aiResponse ''matchScore''") (auto simp: r member_def [of "JObj _"] orElse_def)
  show "member r ''aiSummary'' = Some (JStr [])" if "member aiResponse ''summary'' = None"
    using that by (simp add: r member_def [of "JObj _"] orElse_def)
next
  assume a: "aiResponse \<noteq> JNull
        \<and> (\<not> truthy (member aiResponse ''actionableTips'')
             \<or> (\<exists>tips. member aiResponse ''actionableTips'' = Some (JArr tips) \<and> JNull \<notin> set tips))"
  have "\<exists>ts. normalizeTips (orElse (member aiResponse ''actionableTips'') (JArr [])) = Inr ts"
  proof (cases "truthy (member aiResponse ''actionableTips'')")
    case False
    then have "orElse (member aiResponse ''actionableTips'') (JArr []) = JArr []"
      by (auto simp: orElse_def split: option.splits)
    then show ?thesis by (simp add: normalizeTips_def)
  next
    case True
    with a obtain tips where t: "member aiResponse ''actionableTips'' = Some (JArr tips)"
        "JNull \<notin> set tips"
      by blast
    then obtain ts where "mapTips tips = Inr ts"
      using mapTips_not_null by blast
    then show ?thesis
      using t by (simp add: orElse_def normalizeTips_def)
  qed
  then show "\<exists>r. normalizeResponse aiResponse = Inr r"
    using a by (auto simp: normalizeResponse_def getProp_not_null)
qed

lemma normalization_defaults_example:
  "normalizeResponse sparseReply
   = Inr (JObj
       [(''matchScore'', JNum 0),
        (''missingKeywords'',
           JObj [(''hardSkills'', JArr []), (''softSkills'', JArr []), (''certifications'', JArr [])]),
        (''foundKeywords'',
           JObj [(''hardSkills'', JArr [JStr ''React'']), (''softSkills'', JArr []),
                 (''certifications'', JArr [])]),
        (''actionableTips'', JArr []),
        (''aiSummary'', JStr [])])
   \<and> optChain (member sparseReply ''missingKeywords'') ''hardSkills'' = None
   \<and> \<not> truthy (member sparseReply ''matchScore'')
   \<and> member sparseReply ''summary'' = None"
  using normalization_defaults [of sparseReply "JObj
       [(''matchScore'', JNum 0),
        (''missingKeywords'',
           JObj [(''hardSkills'', JArr []), (''softSkills'', JArr []), (''certifications'', JArr [])]),
        (''foundKeywords'',
           JObj [(''hardSkills'', JArr [JStr ''React'']), (''softSkills'', JArr []),
                 (''certifications'', JArr [])]),
        (''actionableTips'', JArr []),
        (''aiSummary'', JStr [])]"]
  by (simp add: sparseReply_def normalizeResponse_def getProp_def member_def normalizeTips_def
      orElse_def keywordBuckets_def optChain_def)

text \<open>
  Claim C4, at a reply whose \<open>matchScore\<close> is not a number but truthy. The reply
  \<open>{"matchScore":"high"}\<close> is normalized to an analysis whose \<open>matchScore\<close> is the
  string \<open>high\<close>, not 0: \<open>aiResponse.matchScore || 0\<close> replaces falsy values only.
  \<open>analyzeResume\<close> returns that analysis; its other fields have their defaults.
\<close>

theorem matchScore_nonnumeric_passed_through:
  "parseHighScore highScoreReply = Some (JObj [(''matchScore'', JStr ''high'')])
   \<and> \<not> isNumber (member (JObj [(''matchScore'', JStr ''high'')]) ''matchScore'')
   \<and> field (normalizeResponse (JObj [(''matchScore'', JStr ''high'')])) ''matchScore''
       = Some (JStr ''high'')
   \<and> field (normalizeResponse (JObj [(''matchScore'', JStr ''high'')])) ''matchScore''
       \<noteq> Some (JNum 0)
   \<and> resultOf (analyzeResume (healthyBackend highScoreReply) parseHighScore ''cv'' None ())
       = Inr (JObj
           [(''matchScore'', JStr ''high''),
            (''missingKeywords'',
               JObj [(''hardSkills'', JArr []), (''softSkills'', JArr []), (''certifications'', JArr [])]),
            (''foundKeywords'',
               JObj [(''hardSkills'', JArr []), (''softSkills'', JArr []), (''certifications'', JArr [])]),
            (''actionableTips'', JArr []),
            (''aiSummary'', JStr [])])"
  by code_simp

section \<open>Properties of the analysis client\<close>

lemma analyzeResume_trial_ok:
  "backend Primary testPrompt s = (Inr t, s1) \<Longrightarrow>
   backend Primary (analysisPrompt rt jd) s1 = (reply, s2) \<Longrightarrow>
   analyzeResume backend parse rt jd s
   = (outerCatch (case reply of Inl e \<Rightarrow> Inl e | Inr answer \<Rightarrow> parseReply parse answer), s2)"
  by (simp add: analyzeResume_def analyzeBody_def selectModel_def
      analysisPrompt_def stripFence_def split: sum.splits)

lemma analyzeResume_trial_quota:
  "backend Primary testPrompt s = (Inl e, s1) \<Longrightarrow> quotaSignal e \<Longrightarrow>
   backend Fallback (analysisPrompt rt jd) s1 = (reply, s2) \<Longrightarrow>
   analyzeResume backend parse rt jd s
   = (outerCatch (case reply of
                    Inl e \<Rightarrow> Inl e
                  | Inr answer \<Rightarrow> parseReply parse (stripFence True answer)), s2)"
  by (simp add: analyzeResume_def analyzeBody_def selectModel_def
      analysisPrompt_def split: sum.splits)

lemma analyzeResume_trial_other:
  "backend Primary testPrompt s = (Inl e, s1) \<Longrightarrow> \<not> quotaSignal e \<Longrightarrow>
   analyzeResume backend parse rt jd s = (Inl (classifyError e), s1)"
  by (simp add: analyzeResume_def analyzeBody_def outerCatch_def selectModel_def)

lemma recording_invocation:
  "backend model prompt s = (reply, s') \<Longrightarrow>
   recording backend model prompt (s, seen) = (reply, (s', seen @ [(model, prompt)]))"
  by (simp add: recording_def)

lemma invocations_trial_ok:
  assumes "backend Primary testPrompt s = (Inr t, s1)"
  shows "invocations backend parse rt jd s
         = [(Primary, testPrompt), (Primary, analysisPrompt rt jd)]"
proof -
  obtain reply s2 where r: "backend Primary (analysisPrompt rt jd) s1 = (reply, s2)"
    by (cases "backend Primary (analysisPrompt rt jd) s1")
  have "analyzeResume (recording backend) parse rt jd (s, [])
      = (outerCatch (case reply of Inl e \<Rightarrow> Inl e | Inr answer \<Rightarrow> parseReply parse answer),
         (s2, [(Primary, testPrompt), (Primary, analysisPrompt rt jd)]))"
    using assms r
    by (simp add: analyzeResume_trial_ok [where backend = "recording backend"]
        recording_invocation)
  then show ?thesis
    by (simp add: invocations_def stateOf_def)
qed

lemma invocations_trial_quota:
  assumes "backend Primary testPrompt s = (Inl e, s1)" "quotaSignal e"
  shows "invocations backend parse rt jd s
         = [(Primary, testPrompt), (Fallback, analysisPrompt rt jd)]"
proof -
  obtain reply s2 where r: "backend Fallback (analysisPrompt rt jd) s1 = (reply, s2)"
    by (cases "backend Fallback (analysisPrompt rt jd) s1")
  have "analyzeResume (recording backend) parse rt jd (s, [])
      = (outerCatch (case reply of
                       Inl e \<Rightarrow> Inl e
                     | Inr answer \<Rightarrow> parseReply parse (stripFence True answer)),
         (s2, [(Primary, testPrompt), (Fallback, analysisPrompt rt jd)]))"
    using assms r
    by (simp add: analyzeResume_trial_quota [where backend = "recording backend"]
        recording_invocation)
  then show ?thesis
    by (simp add: invocations_def stateOf_def)
qed

lemma invocations_trial_other:
  assumes "backend Primary testPrompt s = (Inl e, s1)" "\<not> quotaSignal e"
  shows "invocations backend parse rt jd s = [(Primary, testPrompt)]"
proof -
  have "analyzeResume (recording backend) parse rt jd (s, [])
      = (Inl (classifyError e), (s1, [(Primary, testPrompt)]))"
    using assms
    by (simp add: analyzeResume_trial_other [where backend = "recording backend"]
        recording_invocation)
  then show ?thesis
    by (simp add: invocations_def stateOf_def)
qed

lemma fallback_invoked_iff:
  "((Fallback, analysisPrompt rt jd) \<in> set (invocations backend parse rt jd s))
   = (\<exists>e s1. backend Primary testPrompt s = (Inl e, s1) \<and> quotaSignal e)"
proof (cases "backend Primary testPrompt s")
  case (Pair r s1)
  show ?thesis
  proof (cases r)
    case (Inl e)
    with Pair show ?thesis
      by (cases "quotaSignal e") (simp_all add: invocations_trial_quota invocations_trial_other)
  next
    case (Inr t)
    with Pair show ?thesis
      by (simp add: invocations_trial_ok)
  qed
qed

text \<open>
  Claim C2. Every call of \<open>analyzeResume\<close> first invokes the primary tier with the test
  prompt. If that succeeds, the request is what the backend receives next, on the primary
  tier, and the call returns what that invocation answered (parsed as it is) and leaves
  the backend in the state that invocation left. If the trial fails with a message
  containing \<open>429\<close> or \<open>quota\<close>, the request goes to the fallback tier instead, and result
  and state are those of the fallback invocation. If the trial fails with any other error,
  the backend receives nothing more and the call ends with that error, as the outer
  handler words it. So the backend is asked on the fallback tier exactly when the trial
  failed with the quota signal. The selection depends on the trial of the same call only:
  all of this holds from every state of the backend, in particular from the state an
  earlier call left.
\<close>

theorem model_selection_per_call:
  fixes backend :: "'s backend"
  shows
  "(\<forall>t s1 reply s2.
       backend Primary testPrompt s = (Inr t, s1)
       \<and> backend Primary (analysisPrompt rt jd) s1 = (reply, s2)
     \<longrightarrow> analyzeResume backend parse rt jd s
           = (outerCatch (case reply of Inl e \<Rightarrow> Inl e | Inr answer \<Rightarrow> parseReply parse answer),
              s2)
         \<and> invocations backend parse rt jd s
           = [(Primary, testPrompt), (Primary, analysisPrompt rt jd)])
   \<and> (\<forall>e s1 reply s2.
       backend Primary testPrompt s = (Inl e, s1) \<and> quotaSignal e
       \<and> backend Fallback (analysisPrompt rt jd) s1 = (reply, s2)
     \<longrightarrow> analyzeResume backend parse rt jd s
           = (outerCatch (case reply of
                            Inl e \<Rightarrow> Inl e
                          | Inr answer \<Rightarrow> parseReply parse (stripFence True answer)),
              s2)
         \<and> invocations backend parse rt jd s
           = [(Primary, testPrompt), (Fallback, analysisPrompt rt jd)])
   \<and> (\<forall>e s1.
       backend Primary testPrompt s = (Inl e, s1) \<and> \<not> quotaSignal e
     \<longrightarrow> analyzeResume backend parse rt jd s = (Inl (classifyError e), s1)
         \<and> invocations backend parse rt jd s = [(Primary, testPrompt)])
   \<and> ((Fallback, analysisPrompt rt jd) \<in> set (invocations backend parse rt jd s))
       = (\<exists>e s1. backend Primary testPrompt s = (Inl e, s1) \<and> quotaSignal e)
   \<and> ((Fallback, analysisPrompt rt' jd')
         \<in> set (invocations backend parse rt' jd'
                  (stateOf (analyzeResume backend parse rt jd s))))
       = (\<exists>e s1. backend Primary testPrompt (stateOf (analyzeResume backend parse rt jd s))
                    = (Inl e, s1)
                 \<and> quotaSignal e)"
  by (intro conjI allI impI)
    (simp_all add: analyzeResume_trial_ok analyzeResume_trial_quota analyzeResume_trial_other
      invocations_trial_ok invocations_trial_quota invocations_trial_other
      fallback_invoked_iff)

theorem model_selection_per_call_witness:
  "recoveringBackend Primary testPrompt 0
     = (Inl (Error ''[429 Too Many Requests] You exceeded your current quota''), 1)
   \<and> quotaSignal (Error ''[429 Too Many Requests] You exceeded your current quota'')
   \<and> recoveringBackend Fallback (analysisPrompt ''cv'' None) 1 = (Inr ''{}'', 2)
   \<and> analyzeResume recoveringBackend parseEmptyObject ''cv'' None 0 = (Inr emptyAnalysis, 2)
   \<and> invocations recoveringBackend parseEmptyObject ''cv'' None 0
       = [(Primary, testPrompt), (Fallback, analysisPrompt ''cv'' None)]
   \<and> recoveringBackend Primary testPrompt 2 = (Inr ''{}'', 3)
   \<and> recoveringBackend Primary (analysisPrompt ''cv'' None) 3 = (Inr ''{}'', 4)
   \<and> analyzeResume recoveringBackend parseEmptyObject ''cv'' None 2 = (Inr emptyAnalysis, 4)
   \<and> invocations recoveringBackend parseEmptyObject ''cv'' None 2
       = [(Primary, testPrompt), (Primary, analysisPrompt ''cv'' None)]
   \<and> (Fallback, analysisPrompt ''cv'' None)
       \<notin> set (invocations recoveringBackend parseEmptyObject ''cv'' None
                (stateOf (analyzeResume recoveringBackend parseEmptyObject ''cv'' None 0)))
   \<and> invalidKeyBackend Primary testPrompt ()
       = (Inl (Error ''[400 Bad Request] API key not valid. Please pass a valid API key.''), ())
   \<and> \<not> quotaSignal (Error ''[400 Bad Request] API key not valid. Please pass a valid API key.'')
   \<and> analyzeResume invalidKeyBackend parseEmptyObject ''cv'' None ()
       = (Inl (Error ''Invalid or missing Gemini API key. Check your .env file.''), ())
   \<and> invocations invalidKeyBackend parseEmptyObject ''cv'' None () = [(Primary, testPrompt)]"
proof -
  have trial: "recoveringBackend Primary testPrompt 0
     = (Inl (Error ''[429 Too Many Requests] You exceeded your current quota''), 1)"
    by (simp add: recoveringBackend_def)
  have signal: "quotaSignal (Error ''[429 Too Many Requests] You exceeded your current quota'')"
    by (simp add: quotaSignal_def)
  have request: "recoveringBackend Fallback (analysisPrompt ''cv'' None) 1 = (Inr ''{}'', 2)"
    by (simp add: recoveringBackend_def)
  have again: "recoveringBackend Primary testPrompt 2 = (Inr ''{}'', 3)"
    "recoveringBackend Primary (analysisPrompt ''cv'' None) 3 = (Inr ''{}'', 4)"
    by (simp_all add: recoveringBackend_def)
  have fenceless: "stripFence True ''{}'' = ''{}''"
    by (simp add: stripFence_def fence_def)
  have parsed: "outerCatch (parseReply parseEmptyObject ''{}'') = Inr emptyAnalysis"
    by (simp add: outerCatch_def parseReply_def parseEmptyObject_def normalizeResponse_def
        getProp_def member_def normalizeTips_def orElse_def keywordBuckets_def optChain_def
        emptyAnalysis_def)
  have refused: "invalidKeyBackend Primary testPrompt ()
       = (Inl (Error ''[400 Bad Request] API key not valid. Please pass a valid API key.''), ())"
    by (simp add: invalidKeyBackend_def)
  have other: "\<not> quotaSignal (Error ''[400 Bad Request] API key not valid. Please pass a valid API key.'')"
    by code_simp
  have worded: "classifyError (Error ''[400 Bad Request] API key not valid. Please pass a valid API key.'')
       = Error ''Invalid or missing Gemini API key. Check your .env file.''"
    by code_simp
  show ?thesis
    using model_selection_per_call [where backend = invalidKeyBackend and s = "()"
          and parse = parseEmptyObject and rt = "''cv''" and jd = None and rt' = "''cv''"
          and jd' = None]
      refused other worded
      model_selection_per_call [where backend = recoveringBackend and s = 0
          and parse = parseEmptyObject and rt = "''cv''" and jd = None and rt' = "''cv''"
          and jd' = None]
      model_selection_per_call [where backend = recoveringBackend and s = 2
          and parse = parseEmptyObject and rt = "''cv''" and jd = None and rt' = "''cv''"
          and jd' = None]
      trial signal request again fenceless parsed
    by (simp add: stateOf_def)
qed

lemma prefix_fence_take: "prefix fence xs = (take 3 xs = fence)"
proof
  assume "prefix fence xs"
  then obtain zs where "xs = fence @ zs" by (auto simp: prefix_def)
  then show "take 3 xs = fence" by (simp add: fence_def)
next
  assume "take 3 xs = fence"
  then have "xs = fence @ drop 3 xs" by (metis append_take_drop_id)
  then show "prefix fence xs" by (metis prefixI)
qed

lemma js_includes_append_left: "js_includes ys p \<Longrightarrow> js_includes (xs @ ys) p"
proof (induction xs)
  case Nil then show ?case by simp
next
  case (Cons x xs)
  then show ?case by simp
qed

lemma no_fence_before:
  assumes "\<not> js_includes ((c # xs) @ ''``'') fence"
  shows "\<not> prefix fence (c # xs @ fence @ post)"
proof
  assume "prefix fence (c # xs @ fence @ post)"
  then have "take 3 (c # xs @ fence @ post) = fence"
    by (simp add: prefix_fence_take)
  moreover have "take 3 (c # xs @ fence @ post) = take 3 ((c # xs) @ ''``'')"
  proof -
    have eq: "c # xs @ fence @ post = ((c # xs) @ ''``'') @ (CHR 0x60 # post)"
      by (simp add: fence_def)
    have t: "take 3 (as @ bs) = take 3 as" if "3 \<le> length as" for as bs :: string
      using that by simp
    have len: "3 \<le> length ((c # xs) @ ''``'')"
      by simp
    show ?thesis
      by (subst eq) (rule t [OF len])
  qed
  ultimately have "prefix fence ((c # xs) @ ''``'')"
    by (simp add: prefix_fence_take)
  with assms show False by simp
qed

lemma splitAtFence_first:
  "\<not> js_includes (xs @ ''``'') fence \<Longrightarrow> splitAtFence (xs @ fence @ post) = Some (xs, post)"
proof (induction xs)
  case Nil
  show ?case by (simp add: fence_def)
next
  case (Cons c xs)
  from Cons.prems have nf: "\<not> prefix fence (c # xs @ fence @ post)"
    by (rule no_fence_before)
  from Cons.prems have "\<not> js_includes (xs @ ''``'') fence" by simp
  then have "splitAtFence (xs @ fence @ post) = Some (xs, post)" by (rule Cons.IH)
  with nf show ?case by simp
qed

lemma matchFence_skip:
  "\<not> js_includes (pre @ ''``'') fence \<Longrightarrow>
   matchFence (pre @ fence @ rest) = matchFence (fence @ rest)"
proof (induction pre)
  case Nil
  show ?case by simp
next
  case (Cons c pre)
  from Cons.prems have nf: "\<not> prefix fence (c # pre @ fence @ rest)"
    by (rule no_fence_before)
  from Cons.prems have "\<not> js_includes (pre @ ''``'') fence" by simp
  then have "matchFence (pre @ fence @ rest) = matchFence (fence @ rest)" by (rule Cons.IH)
  with nf show ?case by simp
qed

lemma fence_not_space: "dropWhile isSpace (fence @ post) = fence @ post"
  by (simp add: fence_def isSpace_def)

lemma closeFence_inner:
  assumes "\<not> js_includes (inner @ ''``'') fence"
  shows "closeFence (inner @ fence @ post) = Some (dropWhile isSpace inner)"
proof -
  have d: "dropWhile isSpace (inner @ fence @ post) = dropWhile isSpace inner @ fence @ post"
  proof (cases "\<forall>x \<in> set inner. isSpace x")
    case True
    then have "dropWhile isSpace (inner @ fence @ post) = dropWhile isSpace (fence @ post)"
      by (simp add: dropWhile_append2)
    moreover from True have "dropWhile isSpace inner = []"
      by simp
    ultimately show ?thesis
      by (simp add: fence_not_space)
  next
    case False
    then show ?thesis
      by (auto simp: dropWhile_append1)
  qed
  have "inner @ ''``'' = takeWhile isSpace inner @ (dropWhile isSpace inner @ ''``'')"
    by simp
  then have "\<not> js_includes (dropWhile isSpace inner @ ''``'') fence"
    using assms js_includes_append_left by metis
  then show ?thesis
    by (simp add: closeFence_def d splitAtFence_first)
qed

lemma json_prefix_of_inner:
  assumes "prefix ''json'' (inner @ fence @ post)"
  shows "prefix ''json'' inner"
proof -
  from assms have "prefix ''json'' inner \<or> (\<exists>us. ''json'' = inner @ us \<and> prefix us (fence @ post))"
    by (simp add: prefix_append)
  then show ?thesis
  proof
    assume "prefix ''json'' inner" then show ?thesis .
  next
    assume "\<exists>us. ''json'' = inner @ us \<and> prefix us (fence @ post)"
    then obtain us where us: "''json'' = inner @ us" "prefix us (fence @ post)" by blast
    show ?thesis
    proof (cases us)
      case Nil
      with us(1) show ?thesis by simp
    next
      case (Cons u us')
      with us(2) have "u = CHR 0x60" by (simp add: fence_def)
      with Cons us(1) have "CHR 0x60 \<in> set ''json''"
        by (metis in_set_conv_decomp)
      then show ?thesis by simp
    qed
  qed
qed

lemma matchAfterOpen_inner:
  assumes "tag = [] \<or> tag = ''json''" "tag = [] \<longrightarrow> \<not> prefix ''json'' inner"
    "\<not> js_includes (inner @ ''``'') fence"
  shows "matchAfterOpen (tag @ inner @ fence @ post) = Some (dropWhile isSpace inner)"
proof (cases "tag = []")
  case True
  with assms(2) have "\<not> prefix ''json'' (inner @ fence @ post)"
    using json_prefix_of_inner by blast
  with True show ?thesis
    by (simp add: matchAfterOpen_def closeFence_inner [OF assms(3)])
next
  case False
  with assms(1) have "tag = ''json''" by simp
  then show ?thesis
    by (simp add: matchAfterOpen_def closeFence_inner [OF assms(3)])
qed

lemma trim_dropWhile: "trim (dropWhile isSpace s) = trim s"
  by (simp add: trim_def)

lemma stripFence_fenced:
  assumes "tag = [] \<or> tag = ''json''" "tag = [] \<longrightarrow> \<not> prefix ''json'' inner"
    "\<not> js_includes (pre @ ''``'') fence" "\<not> js_includes (inner @ ''``'') fence"
  shows "stripFence True (pre @ fence @ tag @ inner @ fence @ post) = trim inner"
proof -
  have "matchFence (pre @ fence @ tag @ inner @ fence @ post)
        = matchFence (fence @ tag @ inner @ fence @ post)"
    using assms(3) by (rule matchFence_skip)
  also have "\<dots> = Some (dropWhile isSpace inner)"
    using matchAfterOpen_inner [OF assms(1,2,4), of post] by (simp add: fence_def)
  finally show ?thesis
    by (simp add: stripFence_def trim_dropWhile)
qed

text \<open>
  Fence stripping away from inner triple backticks. With \<open>useGemma\<close> false the reply is
  parsed as it is. In fallback mode a reply that consists of some text without a triple
  backtick, the opening fence, an optional tag \<open>json\<close>, an inner text without a triple
  backtick (that does not itself start with \<open>json\<close> when there is no tag), the closing
  fence and any text after it, is replaced by the trimmed inner text before parsing; the
  call then returns what the primary path returns on the trimmed inner text.
\<close>

lemma fence_stripping_in_fallback_only:
  fixes backend :: "'s backend"
  shows
  "stripFence False reply = reply
   \<and> (\<forall>t s1 s2. backend Primary testPrompt s = (Inr t, s1)
          \<and> backend Primary (analysisPrompt rt jd) s1 = (Inr reply, s2)
        \<longrightarrow> resultOf (analyzeResume backend parse rt jd s) = outerCatch (parseReply parse reply))
   \<and> ((tag = [] \<or> tag = ''json'') \<and> (tag = [] \<longrightarrow> \<not> prefix ''json'' inner)
        \<and> \<not> js_includes (pre @ ''``'') fence \<and> \<not> js_includes (inner @ ''``'') fence
      \<longrightarrow> stripFence True (pre @ fence @ tag @ inner @ fence @ post) = trim inner
          \<and> (\<forall>e s1 s2. backend Primary testPrompt s = (Inl e, s1) \<and> quotaSignal e
                 \<and> backend Fallback (analysisPrompt rt jd) s1
                     = (Inr (pre @ fence @ tag @ inner @ fence @ post), s2)
               \<longrightarrow> resultOf (analyzeResume backend parse rt jd s)
                   = outerCatch (parseReply parse (trim inner))))"
proof (intro conjI allI impI)
  show "stripFence False reply = reply"
    by (simp add: stripFence_def)
next
  fix t s1 s2
  assume "backend Primary testPrompt s = (Inr t, s1)
          \<and> backend Primary (analysisPrompt rt jd) s1 = (Inr reply, s2)"
  then show "resultOf (analyzeResume backend parse rt jd s) = outerCatch (parseReply parse reply)"
    by (simp add: analyzeResume_trial_ok resultOf_def)
next
  assume shape: "(tag = [] \<or> tag = ''json'') \<and> (tag = [] \<longrightarrow> \<not> prefix ''json'' inner)
        \<and> \<not> js_includes (pre @ ''``'') fence \<and> \<not> js_includes (inner @ ''``'') fence"
  then show strip: "stripFence True (pre @ fence @ tag @ inner @ fence @ post) = trim inner"
    by (intro stripFence_fenced) simp_all
  fix e s1 s2
  assume "backend Primary testPrompt s = (Inl e, s1) \<and> quotaSignal e
                 \<and> backend Fallback (analysisPrompt rt jd) s1
                     = (Inr (pre @ fence @ tag @ inner @ fence @ post), s2)"
  then have "analyzeResume backend parse rt jd s
      = (outerCatch (parseReply parse (stripFence True (pre @ fence @ tag @ inner @ fence @ post))),
         s2)"
    by (simp add: analyzeResume_trial_quota)
  then show "resultOf (analyzeResume backend parse rt jd s)
                   = outerCatch (parseReply parse (trim inner))"
    by (simp add: strip resultOf_def)
qed

lemma fence_stripping_in_fallback_only_example:
  "\<not> js_includes (''Here is the analysis:\<newline>'' @ ''``'') fence
   \<and> \<not> js_includes (''\<newline>{}\<newline>'' @ ''``'') fence
   \<and> stripFence True (''Here is the analysis:\<newline>'' @ fence @ ''json'' @ ''\<newline>{}\<newline>'' @ fence @ [])
       = ''{}''
   \<and> resultOf (analyzeResume
         (exhaustedBackend (''Here is the analysis:\<newline>'' @ fence @ ''json'' @ ''\<newline>{}\<newline>'' @ fence @ []))
         parseEmptyObject ''cv'' None ())
       = Inr emptyAnalysis
   \<and> resultOf (analyzeResume (healthyBackend ''{}'') parseEmptyObject ''cv'' None ())
       = Inr emptyAnalysis"
proof -
  have pe: "outerCatch (parseReply parseEmptyObject ''{}'') = Inr emptyAnalysis"
    by (simp add: outerCatch_def parseReply_def parseEmptyObject_def normalizeResponse_def
        getProp_def member_def normalizeTips_def orElse_def keywordBuckets_def optChain_def
        emptyAnalysis_def)
  have tr: "trim ''\<newline>{}\<newline>'' = ''{}''"
    by (simp add: trim_def isSpace_def)
  have q: "quotaSignal (Error ''[429 Too Many Requests] Resource has been exhausted'')"
    by (simp add: quotaSignal_def)
  show ?thesis
    using fence_stripping_in_fallback_only [where backend = "exhaustedBackend
           (''Here is the analysis:\<newline>'' @ fence @ ''json'' @ ''\<newline>{}\<newline>'' @ fence @ [])"
        and s = "()" and parse = parseEmptyObject and rt = "''cv''" and jd = None
        and tag = "''json''" and inner = "''\<newline>{}\<newline>''"
        and pre = "''Here is the analysis:\<newline>''" and post = "[]" and reply = "''{}''"]
      fence_stripping_in_fallback_only [where backend = "healthyBackend ''{}''"
        and s = "()" and parse = parseEmptyObject and rt = "''cv''" and jd = None
        and tag = "''json''" and inner = "''\<newline>{}\<newline>''"
        and pre = "''Here is the analysis:\<newline>''" and post = "[]" and reply = "''{}''"]
      pe tr q
    by (simp add: exhaustedBackend_def healthyBackend_def fence_def)
qed

text \<open>
  Claim C8, at a fenced reply whose JSON holds a triple backtick. The JSON text
  \<open>{"summary":"Wrap code in ``` marks"}\<close> is valid and is accepted on the primary path,
  where the reply is parsed as it is. In fallback mode the same text between the fence
  \<open>```json\<close> and the closing fence is cut at the triple backtick inside its string (the
  lazy group of the pattern ends at the first triple backtick after the opening fence);
  what is left, the first 24 characters, is not JSON, and the call fails with the
  invalid-JSON error instead of returning the analysis.
\<close>

theorem fenced_json_with_backticks_rejected:
  "parseSummary summaryJson = Some (JObj [(''summary'', JStr ''Wrap code in ``` marks'')])
   \<and> field (resultOf (analyzeResume (healthyBackend summaryJson) parseSummary ''cv'' None ()))
         ''aiSummary''
       = Some (JStr ''Wrap code in ``` marks'')
   \<and> stripFence True (fence @ ''json'' @ summaryJson @ fence) = take 24 summaryJson
   \<and> resultOf (analyzeResume (exhaustedBackend (fence @ ''json'' @ summaryJson @ fence))
         parseSummary ''cv'' None ())
       = Inl (Error ''AI analysis failed: AI returned invalid JSON response'')"
  by (simp add: analyzeResume_def analyzeBody_def outerCatch_def selectModel_def
      exhaustedBackend_def healthyBackend_def
      quotaSignal_def stripFence_def fence_def summaryJson_def parseSummary_def parseReply_def
      matchAfterOpen_def closeFence_def trim_def isSpace_def classifyError_def
      normalizeResponse_def getProp_def member_def normalizeTips_def orElse_def
      keywordBuckets_def optChain_def field_def resultOf_def Let_def)

section \<open>Properties of the upload pipeline\<close>

lemma uploadError_db: "db (snd (uploadError env req e w)) = db w"
  by (simp add: uploadError_def unlinkFile_def Let_def split: option.splits)

lemma uploadError_db_eq: "uploadError env req e w = (res, w') \<Longrightarrow> db w' = db w"
  using uploadError_db [of env req e w] by simp




lemma latin1_string_operations:
  "toLowerCase [CHR ''.'', CHR ''P'', CHR 0xC9, CHR 0xD7, CHR 0xDE, CHR 0xDF]
     = [CHR ''.'', CHR ''p'', CHR 0xE9, CHR 0xD7, CHR 0xFE, CHR 0xDF]
   \<and> trim ([CHR 0xA0, CHR 0x0B] @ ''a b'' @ [CHR 0x0C, CHR 0xA0]) = ''a b''
   \<and> collapseWhitespace (''a'' @ [CHR 0xA0, CHR 0x09, CHR 0xA0] @ ''b'' @ [CHR 0x85] @ ''c'')
       = ''a b'' @ [CHR 0x85] @ ''c''"
  by code_simp



text \<open>
  Claim C1, at an upload whose analysis the store does not accept. The reply
  \<open>{"matchScore":150}\<close> is normalized to an analysis with \<open>matchScore\<close> 150, which the
  schema of the document (maximum 100) rejects: the first \<open>save\<close> rejects and is caught
  by \<open>catch (aiError)\<close>, the \<open>save\<close> in that handler rejects again and is caught by
  the outer handler, which answers 500 and returns. The document the invocation created is
  still stored with status \<open>processing\<close>. With the reply \<open>{"matchScore":85}\<close> the same
  store accepts the document and the invocation completes it.
\<close>

theorem record_left_processing_when_saves_reject:
  "(case uploadResume overScoreEnv uploadRequest uploadedWorld () of
      (res, created, w', s') \<Rightarrow>
        code res = 500 \<and> msg res = ''Error processing resume''
        \<and> err res = Some (message validationError)
        \<and> created = Some 0 \<and> map status (db w') = [Processing])
   \<and> (case uploadResume inRangeEnv uploadRequest uploadedWorld () of
      (res, created, w', s') \<Rightarrow>
        code res = 201 \<and> created = Some 0 \<and> map status (db w') = [Completed])"
  by code_simp

text \<open>
  When every \<open>save\<close> resolves, the invocation ends without a document or with its
  document completed or failed.
\<close>

lemma saves_resolve_terminal:
  assumes "\<forall>n doc. save env n doc = None"
  shows "case uploadResume env req w s of
      (res, created, w', s') \<Rightarrow>
        (case created of
           None \<Rightarrow> db w' = db w
         | Some i \<Rightarrow> i < length (db w') \<and> (status (db w' ! i) = Completed \<or> status (db w' ! i) = Failed))"
  using assms
  by (auto simp: uploadResume_def analysisFailed_def unlinkFile_def Let_def
      dest: uploadError_db_eq split: option.splits sum.splits prod.splits)

text \<open>
  Claim C5, at an upload whose analysis fails (the backend rejects the API key). The
  handler marks the document failed and returns from \<open>catch (aiError)\<close>; \<open>fs.unlink\<close>
  is not called on that path, and the temporary file is still on disk.
\<close>

theorem temporary_file_kept_when_analysis_fails:
  "path (the (reqFile uploadRequest)) \<in> files uploadedWorld
   \<and> (case uploadResume invalidKeyEnv uploadRequest uploadedWorld () of
      (res, created, w', s') \<Rightarrow>
        code res = 500 \<and> msg res = ''AI analysis failed. Please try again.''
        \<and> map status (db w') = [Failed]
        \<and> path (the (reqFile uploadRequest)) \<in> files w')"
  by code_simp

text \<open>
  On every other path of an invocation with an uploaded file the file is deleted when
  \<open>fs.unlink\<close> resolves. Whether it resolves or rejects, the response, the created
  document, the collection and the backend are the same; when it rejects after a
  successful analysis the warning is logged and the file stays.
\<close>

lemma file_deleted_except_when_analysis_fails:
  assumes "reqFile req = Some f" "path f \<noteq> []" "unlink env = None"
  shows "case uploadResume env req w s of
      (res, created, w', s') \<Rightarrow>
        path f \<notin> files w' \<or> msg res = ''AI analysis failed. Please try again.''"
  using assms
  by (auto simp: uploadResume_def analysisFailed_def unlinkFile_def uploadError_def Let_def
      split: option.splits sum.splits prod.splits)

lemma uploadError_response:
  "fst (uploadError env req e w)
   = \<lparr>code = 500, success = False, msg = ''Error processing resume'',
      err = Some (message e), payload = None\<rparr>"
  by (simp add: uploadError_def Let_def)

lemma analysisFailed_unlink:
  "fst (analysisFailed (env\<lparr>unlink := u\<rparr>) req i doc n a w) = fst (analysisFailed env req i doc n a w)
   \<and> db (snd (analysisFailed (env\<lparr>unlink := u\<rparr>) req i doc n a w))
       = db (snd (analysisFailed env req i doc n a w))
   \<and> code (fst (analysisFailed env req i doc n a w)) = 500"
  by (simp add: analysisFailed_def Let_def uploadError_response uploadError_db
      split: option.splits)

lemma analysisFailed_code: "code (fst (analysisFailed env req i doc n a w)) = 500"
  by (simp add: analysisFailed_def Let_def uploadError_response split: option.splits)

lemma deletion_failure_not_escalated:
  "fst (uploadResume (env\<lparr>unlink := u\<rparr>) req w s) = fst (uploadResume env req w s)
   \<and> fst (snd (uploadResume (env\<lparr>unlink := u\<rparr>) req w s)) = fst (snd (uploadResume env req w s))
   \<and> db (fst (snd (snd (uploadResume (env\<lparr>unlink := u\<rparr>) req w s))))
       = db (fst (snd (snd (uploadResume env req w s))))
   \<and> snd (snd (snd (uploadResume (env\<lparr>unlink := u\<rparr>) req w s)))
       = snd (snd (snd (uploadResume env req w s)))"
  by (simp add: uploadResume_def Let_def case_prod_beta uploadError_response uploadError_db
      analysisFailed_unlink unlinkFile_def split: option.splits sum.splits)

lemma deletion_failure_logged:
  assumes f: "reqFile req = Some f" and u: "unlink env = Some e"
    and created: "code (fst (uploadResume env req w s)) = 201"
  shows "logs (fst (snd (snd (uploadResume env req w s))))
         = logs w @ [''Could not delete temporary file: '' @ message e]
       \<and> files (fst (snd (snd (uploadResume env req w s)))) = files w"
proof (cases "parseResume (libs env) (path f)")
  case (Inl e')
  then have "code (fst (uploadResume env req w s)) = 500"
    using f by (simp add: uploadResume_def case_prod_beta uploadError_response)
  with created show ?thesis by simp
next
  case (Inr extracted)
  show ?thesis
  proof (cases "create env")
    case (Some e')
    then have "code (fst (uploadResume env req w s)) = 500"
      using f Inr by (simp add: uploadResume_def case_prod_beta uploadError_response)
    with created show ?thesis by simp
  next
    case None
    obtain r s' where an: "analyzeResume (aiBackend env) (jsonParse env) extracted
          (reqJobDescription req) s = (r, s')"
      by (cases "analyzeResume (aiBackend env) (jsonParse env) extracted (reqJobDescription req) s")
    show ?thesis
    proof (cases r)
      case (Inl aiError)
      then have "code (fst (uploadResume env req w s)) = 500"
        using f Inr None an
        by (simp add: uploadResume_def Let_def case_prod_beta analysisFailed_code)
      with created show ?thesis by simp
    next
      case (Inr a)
      let ?done = "\<lparr>user = reqUser req, originalFileName = originalname f,
            filePath = path f, extractedText = extracted,
            jobDescription = defaultJobDescription (reqJobDescription req),
            analysis = Some a, status = Completed\<rparr>"
      show ?thesis
      proof (cases "save env 0 ?done")
        case (Some e')
        then have "code (fst (uploadResume env req w s)) = 500"
          using f \<open>parseResume (libs env) (path f) = Inr extracted\<close> None an Inr
          by (simp add: uploadResume_def Let_def case_prod_beta analysisFailed_code)
        with created show ?thesis by simp
      next
        case saved: None
        show ?thesis
          using f \<open>parseResume (libs env) (path f) = Inr extracted\<close> None an Inr saved u
          by (simp add: uploadResume_def Let_def unlinkFile_def)
      qed
    qed
  qed
qed

end
